theory Spec2Isabelle
  imports Main "HOL-Library.AList" "HOL-Library.Sublist"
begin

section \<open>JavaScript values, strings and objects\<close>

text \<open>
  The values that flow through \<^verbatim>\<open>src/index.ts\<close>: a spreadsheet cell is a string
  (the Sheets call is made with the default render option, which formats every cell as
  text), a record field is a string, an array of strings, or \<^verbatim>\<open>undefined\<close>.
  A string is a list of code units; the embedding covers code units below 256.
\<close>

datatype jsval = Undefined | Str string | Arr "string list"

text \<open>
  A plain object built by assignments \<^verbatim>\<open>o[k] = v\<close>, as the list of its own fields
  in the order of their first assignment (JavaScript lists integer-like keys before the
  others; nothing below depends on the order). Assigning to an existing key replaces the
  value in place, a new key is appended. A key whose value is \<^verbatim>\<open>undefined\<close> is
  still a field of the object.

  The name \<^verbatim>\<open>__proto__\<close> is never a field: on a plain object the assignment reaches
  the setter of \<^verbatim>\<open>Object.prototype\<close>, which ignores a string and
  \<^verbatim>\<open>undefined\<close> and stores nothing (an array would become the prototype, and no
  field is stored either).
\<close>

type_synonym obj = "(string \<times> jsval) list"

definition set_prop :: "obj \<Rightarrow> string \<Rightarrow> jsval \<Rightarrow> obj" where
  "set_prop e k v = (if k = ''__proto__'' then e else AList.update k v e)"

text \<open>
  \<^verbatim>\<open>o[k]\<close>, read from the fields of the object itself. What a plain object inherits
  from \<^verbatim>\<open>Object.prototype\<close> is an object or a function, never a string or an array
  of strings, and the comparisons of the source (\<^verbatim>\<open>===\<close> with a string,
  \<^verbatim>\<open>?.includes\<close> on \<^verbatim>\<open>projects\<close> and \<^verbatim>\<open>club\<close>) give for it what they give
  for \<^verbatim>\<open>undefined\<close>.
\<close>

definition get_prop :: "obj \<Rightarrow> string \<Rightarrow> jsval" where
  "get_prop e k = (case map_of e k of None \<Rightarrow> Undefined | Some v \<Rightarrow> v)"

text \<open>The object has a field \<open>k\<close> of its own.\<close>

definition has_prop :: "obj \<Rightarrow> string \<Rightarrow> bool" where
  "has_prop e k = (k \<in> fst ` set e)"

text \<open>A row of the grid; \<^verbatim>\<open>row[index]\<close> is \<^verbatim>\<open>undefined\<close> (here \<open>None\<close>) past its end.\<close>

type_synonym row = "string list"

definition cell :: "row \<Rightarrow> nat \<Rightarrow> string option" where
  "cell r i = (if i < length r then Some (r ! i) else None)"

text \<open>Truthiness of a string-or-undefined value: only a non-empty string is truthy.\<close>

definition truthy :: "string option \<Rightarrow> bool" where
  "truthy v = (case v of None \<Rightarrow> False | Some s \<Rightarrow> s \<noteq> [])"

text \<open>\<^verbatim>\<open>v || ''\<close>\<close>

definition or_empty :: "string option \<Rightarrow> string" where
  "or_empty v = (case v of None \<Rightarrow> [] | Some s \<Rightarrow> (if s \<noteq> [] then s else []))"

text \<open>A value interpolated into a template literal.\<close>

definition template :: "string option \<Rightarrow> string" where
  "template v = (case v of None \<Rightarrow> ''undefined'' | Some s \<Rightarrow> s)"

text \<open>\<^verbatim>\<open>s.split(sep)\<close> for a one-character separator: never the empty array.\<close>

fun split_js :: "char \<Rightarrow> string \<Rightarrow> string list" where
  "split_js sep [] = [[]]"
| "split_js sep (c # cs) =
     (if c = sep then [] # split_js sep cs
      else (case split_js sep cs of
              [] \<Rightarrow> [[c]]
            | p # ps \<Rightarrow> (c # p) # ps))"

text \<open>
  \<^verbatim>\<open>s.trim()\<close>: white space and line terminators are removed from both ends
  (tab, line feed, vertical tab, form feed, carriage return, space, no-break space).
\<close>

definition is_space :: "char \<Rightarrow> bool" where
  "is_space c = (of_char c \<in> {9, 10, 11, 12, 13, 32, 160 :: nat})"

definition trim :: "string \<Rightarrow> string" where
  "trim s = rev (dropWhile is_space (rev (dropWhile is_space s)))"

text \<open>Array destructuring \<^verbatim>\<open>[a, , c] = parts\<close>: a missing position is \<^verbatim>\<open>undefined\<close>.\<close>

definition element :: "string list \<Rightarrow> nat \<Rightarrow> jsval" where
  "element xs i = (if i < length xs then Str (xs ! i) else Undefined)"

section \<open>Configuration and the photo resolver\<close>

record env =
  DRIVE_PHOTO_HOST :: "string option"
  API_SECRET_KEY :: "string option"

type_synonym photos = "string \<rightharpoonup> string"

definition getPhotoCdn :: "env \<Rightarrow> photos \<Rightarrow> string option \<Rightarrow> string" where
  "getPhotoCdn cfg ps key =
     (let photoId = (case key of None \<Rightarrow> None | Some k \<Rightarrow> ps k)
      in if truthy photoId
         then template (DRIVE_PHOTO_HOST cfg) @ ''/'' @ template photoId
         else [])"

text \<open>An entry of the folder listing; a missing or null name or id is \<open>None\<close>.\<close>

record drive_file =
  file_id :: "string option"
  file_name :: "string option"

definition set_file :: "photos \<Rightarrow> drive_file \<Rightarrow> photos" where
  "set_file fileMap file =
     (if truthy (file_name file) \<and> truthy (file_id file)
      then fileMap(or_empty (file_name file) \<mapsto> or_empty (file_id file))
      else fileMap)"

text \<open>The loop of \<^verbatim>\<open>listFilesInFolder\<close> over \<^verbatim>\<open>res.data.files\<close>, which may be missing.\<close>

definition fileMapOf :: "drive_file list option \<Rightarrow> photos" where
  "fileMapOf files =
     (case files of None \<Rightarrow> Map.empty | Some fs \<Rightarrow> foldl set_file Map.empty fs)"

section \<open>External collaborators and their effects\<close>

text \<open>
  What a call to the folder listing or to the spreadsheet gives back is an input of the
  model: a failure (the rejected promise) or the listed files, respectively the grid,
  either of which may be missing from the response. Every call issued and every response
  sent is recorded, in order.
\<close>

datatype failure = Thrown string

record ApiParam =
  spreadsheetId :: string
  sheetRange :: string
  photoFolder :: string

record world =
  drive_files_list :: "string \<Rightarrow> failure + drive_file list option"
  sheets_values_get :: "string \<Rightarrow> string \<Rightarrow> failure + row list option"

definition listFilesInFolder :: "world \<Rightarrow> string \<Rightarrow> failure + photos" where
  "listFilesInFolder w folderId =
     (case drive_files_list w folderId of
        Inl e \<Rightarrow> Inl e
      | Inr files \<Rightarrow> Inr (fileMapOf files))"

section \<open>The row mapper\<close>

text \<open>The callback of \<^verbatim>\<open>headers.reduce\<close> in \<^verbatim>\<open>getAllEmployees\<close>, for one data row.\<close>

definition reducer :: "env \<Rightarrow> photos \<Rightarrow> row \<Rightarrow> obj \<Rightarrow> string \<Rightarrow> nat \<Rightarrow> obj" where
  "reducer cfg ps r employee header index =
     (if header = ''photo'' then
        set_prop employee header (Str (getPhotoCdn cfg ps (cell r index)))
      else if header = ''projects'' \<or> header = ''club'' then
        set_prop employee header
          (case cell r index of
             None \<Rightarrow> Arr []
           | Some s \<Rightarrow> Arr (map trim (split_js CHR '','' s)))
      else if header = ''dob'' then
        (let dobValue = or_empty (cell r index);
             parts = split_js CHR ''/'' dobValue;
             e1 = set_prop employee ''monthofbirth'' (element parts 0);
             e2 = set_prop e1 ''yearofbirth'' (element parts 2)
         in set_prop e2 header (Str dobValue))
      else if header = ''date_joined'' then
        (let dateJoined = or_empty (cell r index);
             parts = split_js CHR ''/'' dateJoined;
             e1 = set_prop employee ''joiningyear'' (element parts 2)
         in set_prop e1 header (Str dateJoined))
      else set_prop employee header (Str (or_empty (cell r index))))"

text \<open>
  \<^verbatim>\<open>headers.reduce(callback, initial)\<close>: the callback is applied to the headers from
  left to right, with their indices; \<open>n\<close> is the index of the first header of \<open>hs\<close>.
\<close>

definition reduce_from :: "env \<Rightarrow> photos \<Rightarrow> row \<Rightarrow> obj \<Rightarrow> nat \<Rightarrow> string list \<Rightarrow> obj" where
  "reduce_from cfg ps r initial n hs =
     foldl (\<lambda>employee (index, header). reducer cfg ps r employee header index)
       initial (enumerate n hs)"

definition mapRow :: "env \<Rightarrow> photos \<Rightarrow> string list \<Rightarrow> row \<Rightarrow> obj" where
  "mapRow cfg ps headers r = reduce_from cfg ps r [] 0 headers"

text \<open>
  The fields that the callback stores for a header: one for each assignment of its case,
  and none for the header \<^verbatim>\<open>__proto__\<close>.
\<close>

definition writes :: "string \<Rightarrow> string set" where
  "writes header =
     (if header = ''dob'' then {''monthofbirth'', ''yearofbirth'', header}
      else if header = ''date_joined'' then {''joiningyear'', header}
      else if header = ''__proto__'' then {}
      else {header})"

definition mapRows :: "env \<Rightarrow> photos \<Rightarrow> string list \<Rightarrow> row list \<Rightarrow> obj list" where
  "mapRows cfg ps headers dataRows = map (mapRow cfg ps headers) dataRows"

section \<open>The master data grouper\<close>

record SubCategory =
  title :: "string option"
  photo :: string

record Category = SubCategory +
  key :: "string option"

record MasterData =
  category :: "Category list"
  country :: "SubCategory list"
  role :: "SubCategory list"
  birthplace :: "SubCategory list"
  yearofbirth :: "SubCategory list"
  monthofbirth :: "SubCategory list"
  project :: "SubCategory list"
  club :: "SubCategory list"
  gender :: "SubCategory list"
  joiningyear :: "SubCategory list"
  office :: "SubCategory list"

definition emptyMasterData :: MasterData where
  "emptyMasterData =
     \<lparr>category = [], country = [], role = [], birthplace = [], yearofbirth = [],
      monthofbirth = [], project = [], club = [], gender = [], joiningyear = [],
      office = []\<rparr>"

text \<open>
  The body of the \<^verbatim>\<open>forEach\<close> over \<^verbatim>\<open>rows.slice(2)\<close>: eleven guarded pushes,
  one definition for each statement, run in the order of the source.
\<close>

definition push_category :: "env \<Rightarrow> photos \<Rightarrow> row \<Rightarrow> MasterData \<Rightarrow> MasterData" where
  "push_category cfg ps r result =
     (if truthy (cell r 0)
      then result\<lparr>category := category result @
        [\<lparr>title = cell r 1, photo = getPhotoCdn cfg ps (cell r 2), key = cell r 0\<rparr>]\<rparr>
      else result)"

definition push_country :: "env \<Rightarrow> photos \<Rightarrow> row \<Rightarrow> MasterData \<Rightarrow> MasterData" where
  "push_country cfg ps r result =
     (if truthy (cell r 4)
      then result\<lparr>country := country result @
        [\<lparr>title = cell r 4, photo = getPhotoCdn cfg ps (cell r 5)\<rparr>]\<rparr>
      else result)"

definition push_role :: "env \<Rightarrow> photos \<Rightarrow> row \<Rightarrow> MasterData \<Rightarrow> MasterData" where
  "push_role cfg ps r result =
     (if truthy (cell r 7)
      then result\<lparr>role := role result @
        [\<lparr>title = cell r 7, photo = getPhotoCdn cfg ps (cell r 8)\<rparr>]\<rparr>
      else result)"

definition push_birthplace :: "env \<Rightarrow> photos \<Rightarrow> row \<Rightarrow> MasterData \<Rightarrow> MasterData" where
  "push_birthplace cfg ps r result =
     (if truthy (cell r 10)
      then result\<lparr>birthplace := birthplace result @
        [\<lparr>title = cell r 10, photo = getPhotoCdn cfg ps (cell r 11)\<rparr>]\<rparr>
      else result)"

definition push_yearofbirth :: "env \<Rightarrow> photos \<Rightarrow> row \<Rightarrow> MasterData \<Rightarrow> MasterData" where
  "push_yearofbirth cfg ps r result =
     (if truthy (cell r 13)
      then result\<lparr>yearofbirth := yearofbirth result @
        [\<lparr>title = cell r 13, photo = getPhotoCdn cfg ps (cell r 14)\<rparr>]\<rparr>
      else result)"

definition push_monthofbirth :: "env \<Rightarrow> photos \<Rightarrow> row \<Rightarrow> MasterData \<Rightarrow> MasterData" where
  "push_monthofbirth cfg ps r result =
     (if truthy (cell r 16)
      then result\<lparr>monthofbirth := monthofbirth result @
        [\<lparr>title = cell r 16, photo = getPhotoCdn cfg ps (cell r 17)\<rparr>]\<rparr>
      else result)"

definition push_project :: "env \<Rightarrow> photos \<Rightarrow> row \<Rightarrow> MasterData \<Rightarrow> MasterData" where
  "push_project cfg ps r result =
     (if truthy (cell r 19)
      then result\<lparr>project := project result @
        [\<lparr>title = cell r 19, photo = getPhotoCdn cfg ps (cell r 20)\<rparr>]\<rparr>
      else result)"

definition push_club :: "env \<Rightarrow> photos \<Rightarrow> row \<Rightarrow> MasterData \<Rightarrow> MasterData" where
  "push_club cfg ps r result =
     (if truthy (cell r 22)
      then result\<lparr>club := club result @
        [\<lparr>title = cell r 22, photo = getPhotoCdn cfg ps (cell r 23)\<rparr>]\<rparr>
      else result)"

definition push_gender :: "env \<Rightarrow> photos \<Rightarrow> row \<Rightarrow> MasterData \<Rightarrow> MasterData" where
  "push_gender cfg ps r result =
     (if truthy (cell r 25)
      then result\<lparr>gender := gender result @
        [\<lparr>title = cell r 25, photo = getPhotoCdn cfg ps (cell r 26)\<rparr>]\<rparr>
      else result)"

definition push_joiningyear :: "env \<Rightarrow> photos \<Rightarrow> row \<Rightarrow> MasterData \<Rightarrow> MasterData" where
  "push_joiningyear cfg ps r result =
     (if truthy (cell r 28)
      then result\<lparr>joiningyear := joiningyear result @
        [\<lparr>title = cell r 28, photo = getPhotoCdn cfg ps (cell r 29)\<rparr>]\<rparr>
      else result)"

definition push_office :: "env \<Rightarrow> photos \<Rightarrow> row \<Rightarrow> MasterData \<Rightarrow> MasterData" where
  "push_office cfg ps r result =
     (if truthy (cell r 31)
      then result\<lparr>office := office result @
        [\<lparr>title = cell r 31, photo = getPhotoCdn cfg ps (cell r 32)\<rparr>]\<rparr>
      else result)"

definition pushRow :: "env \<Rightarrow> photos \<Rightarrow> MasterData \<Rightarrow> row \<Rightarrow> MasterData" where
  "pushRow cfg ps result r =
     (push_office cfg ps r \<circ> push_joiningyear cfg ps r \<circ> push_gender cfg ps r \<circ>
      push_club cfg ps r \<circ> push_project cfg ps r \<circ> push_monthofbirth cfg ps r \<circ>
      push_yearofbirth cfg ps r \<circ> push_birthplace cfg ps r \<circ> push_role cfg ps r \<circ>
      push_country cfg ps r \<circ> push_category cfg ps r) result"

text \<open>The loop over the grid without its first two rows, from the empty result.\<close>

definition groupRows :: "env \<Rightarrow> photos \<Rightarrow> row list \<Rightarrow> MasterData" where
  "groupRows cfg ps rows = foldl (pushRow cfg ps) emptyMasterData (drop 2 rows)"

text \<open>
  What one row adds to a list, in the words of the specification: an entry when the
  label column of the group is non-empty in the row, nothing otherwise. The category
  group reads its key from column 0, its title from column 1 and its photo from column 2;
  every other group reads its title from its label column.
\<close>

definition category_entry :: "env \<Rightarrow> photos \<Rightarrow> row \<Rightarrow> Category list" where
  "category_entry cfg ps r =
     (if truthy (cell r 0)
      then [\<lparr>title = cell r 1, photo = getPhotoCdn cfg ps (cell r 2), key = cell r 0\<rparr>]
      else [])"

definition group_entry :: "env \<Rightarrow> photos \<Rightarrow> nat \<Rightarrow> nat \<Rightarrow> row \<Rightarrow> SubCategory list" where
  "group_entry cfg ps labelCol photoCol r =
     (if truthy (cell r labelCol)
      then [\<lparr>title = cell r labelCol, photo = getPhotoCdn cfg ps (cell r photoCol)\<rparr>]
      else [])"

section \<open>The data-source readers and the two endpoints\<close>

datatype payload =
  ErrorJson string string
| EmployeesJson "obj list"
| MasterDataJson MasterData

datatype effect =
  DriveFilesList string
| SheetsValuesGet string string
| Respond nat payload

text \<open>
  \<^verbatim>\<open>getAllEmployees\<close> and \<^verbatim>\<open>getMasterDataSource\<close>: the calls issued, and the
  result or the failure thrown. The folder listing is awaited before the spreadsheet is
  read; a failure of the read is logged and thrown again.
\<close>

definition getAllEmployees :: "env \<Rightarrow> world \<Rightarrow> ApiParam \<Rightarrow> effect list \<times> (failure + obj list)" where
  "getAllEmployees cfg w param =
     (case listFilesInFolder w (photoFolder param) of
        Inl e \<Rightarrow> ([DriveFilesList (photoFolder param)], Inl e)
      | Inr ps \<Rightarrow>
          ([DriveFilesList (photoFolder param),
            SheetsValuesGet (spreadsheetId param) (sheetRange param)],
           (case sheets_values_get w (spreadsheetId param) (sheetRange param) of
              Inl err \<Rightarrow> Inl err
            | Inr None \<Rightarrow> Inr []
            | Inr (Some []) \<Rightarrow> Inr []
            | Inr (Some (headers # dataRows)) \<Rightarrow> Inr (mapRows cfg ps headers dataRows))))"

definition getMasterDataSource :: "env \<Rightarrow> world \<Rightarrow> ApiParam \<Rightarrow> effect list \<times> (failure + MasterData)" where
  "getMasterDataSource cfg w param =
     (case listFilesInFolder w (photoFolder param) of
        Inl e \<Rightarrow> ([DriveFilesList (photoFolder param)], Inl e)
      | Inr ps \<Rightarrow>
          ([DriveFilesList (photoFolder param),
            SheetsValuesGet (spreadsheetId param) (sheetRange param)],
           (case sheets_values_get w (spreadsheetId param) (sheetRange param) of
              Inl err \<Rightarrow> Inl err
            | Inr None \<Rightarrow> Inr emptyMasterData
            | Inr (Some rows) \<Rightarrow>
                (if length rows \<le> 1 then Inr emptyMasterData
                 else Inr (groupRows cfg ps rows)))))"

text \<open>
  A request: its headers and its query parameters, each a dictionary whose values are
  strings or arrays of strings; a name that is not there reads as \<^verbatim>\<open>undefined\<close>.
\<close>

record request =
  headers :: obj
  query :: obj

text \<open>\<^verbatim>\<open>a ?? b\<close>\<close>

definition nullish :: "jsval \<Rightarrow> jsval \<Rightarrow> jsval" where
  "nullish a b = (if a = Undefined then b else a)"

definition env_value :: "string option \<Rightarrow> jsval" where
  "env_value v = (case v of None \<Rightarrow> Undefined | Some s \<Rightarrow> Str s)"

definition secretApi :: "request \<Rightarrow> jsval" where
  "secretApi req =
     nullish (get_prop (headers req) ''x-secret-key'') (get_prop (query req) ''x-secret-key'')"

definition unauthorized :: payload where
  "unauthorized = ErrorJson ''unauthorized'' ''Invalid secret key''"

definition validateSecretKey :: "env \<Rightarrow> request \<Rightarrow> effect list \<times> bool" where
  "validateSecretKey cfg req =
     (if secretApi req \<noteq> env_value (API_SECRET_KEY cfg)
      then ([Respond 401 unauthorized], False)
      else ([], True))"

definition employeeAPI :: "env \<Rightarrow> world \<Rightarrow> request \<Rightarrow> ApiParam \<Rightarrow> effect list" where
  "employeeAPI cfg w req param =
     (case validateSecretKey cfg req of
        (t, False) \<Rightarrow> t
      | (t, True) \<Rightarrow>
          (case getAllEmployees cfg w param of
             (t', Inr employees) \<Rightarrow> t @ t' @ [Respond 200 (EmployeesJson employees)]
           | (t', Inl error) \<Rightarrow>
               t @ t' @ [Respond 500 (ErrorJson ''00001'' ''Internal Server Error'')]))"

definition masterDataAPI :: "env \<Rightarrow> world \<Rightarrow> request \<Rightarrow> ApiParam \<Rightarrow> effect list" where
  "masterDataAPI cfg w req param =
     (case validateSecretKey cfg req of
        (t, False) \<Rightarrow> t
      | (t, True) \<Rightarrow>
          (case getMasterDataSource cfg w param of
             (t', Inr masterData) \<Rightarrow> t @ t' @ [Respond 200 (MasterDataJson masterData)]
           | (t', Inl error) \<Rightarrow>
               t @ t' @ [Respond 500 (ErrorJson ''00002'' ''Internal Server Error'')]))"

section \<open>Filter utilities\<close>

text \<open>
  \<^verbatim>\<open>v?.includes(x)\<close> as a condition: \<^verbatim>\<open>undefined\<close> is falsy, an array is searched
  for an equal element, a string for an occurrence of \<open>x\<close>.
\<close>

definition includes_js :: "jsval \<Rightarrow> string \<Rightarrow> bool" where
  "includes_js v x =
     (case v of
        Undefined \<Rightarrow> False
      | Str s \<Rightarrow> sublist x s
      | Arr xs \<Rightarrow> x \<in> set xs)"

definition filterEmployee :: "string \<Rightarrow> string \<Rightarrow> obj list \<Rightarrow> obj list" where
  "filterEmployee categoryKey filterValue apiEmployees =
     (if categoryKey = ''club'' \<or> categoryKey = ''projects''
      then filter (\<lambda>it. includes_js (get_prop it categoryKey) filterValue) apiEmployees
      else filter (\<lambda>it. get_prop it categoryKey = Str filterValue) apiEmployees)"

section \<open>The client fetch facade\<close>

text \<open>
  A response as \<^verbatim>\<open>handleResponse\<close> reads it: the \<^verbatim>\<open>ok\<close> flag, the status and the
  outcome of \<^verbatim>\<open>response.json()\<close>, which rejects when the body does not parse. A fetch
  either rejects or resolves to a response. Reading \<^verbatim>\<open>errorData.error_message\<close> is
  the parameter \<open>message\<close>: it throws when the payload is null, and may give
  \<^verbatim>\<open>undefined\<close>.
\<close>

record 'j response =
  ok :: bool
  status :: nat
  json :: "failure + 'j"

definition handleResponse ::
  "('j \<Rightarrow> failure + string option) \<Rightarrow> 'j response \<Rightarrow> failure + 'j" where
  "handleResponse message resp =
     (if \<not> ok resp then
        (case json resp of
           Inl e \<Rightarrow> Inl e
         | Inr errorData \<Rightarrow>
             (case message errorData of
                Inl e \<Rightarrow> Inl e
              | Inr m \<Rightarrow>
                  (if status resp = 401 then Inl (Thrown (''Unauthorized: '' @ template m))
                   else if status resp = 500
                   then Inl (Thrown (''Internal Server Error: '' @ template m))
                   else Inl (Thrown (''Error: '' @ template m)))))
      else json resp)"

text \<open>
  \<^verbatim>\<open>Promise.all\<close> of the two fetches: rejected when one of them is. Which of two
  rejections is passed on depends on their timing; \<^verbatim>\<open>fetchApis\<close> only logs it.
\<close>

definition promise_all :: "failure + 'a \<Rightarrow> failure + 'b \<Rightarrow> failure + ('a \<times> 'b)" where
  "promise_all p q =
     (case p of
        Inl e \<Rightarrow> Inl e
      | Inr x \<Rightarrow> (case q of Inl e \<Rightarrow> Inl e | Inr y \<Rightarrow> Inr (x, y)))"

text \<open>The body of the \<^verbatim>\<open>try\<close> block of \<^verbatim>\<open>fetchApis\<close>.\<close>

definition fetchBoth ::
  "('j \<Rightarrow> failure + string option) \<Rightarrow> (string \<Rightarrow> string \<Rightarrow> failure + 'j response) \<Rightarrow>
   string \<Rightarrow> failure + ('j \<times> 'j)" where
  "fetchBoth message fetch apiKey =
     (case promise_all (fetch ''/api/employee'' apiKey) (fetch ''/api/master-data'' apiKey) of
        Inl e \<Rightarrow> Inl e
      | Inr (employeesResponse, masterDataResponse) \<Rightarrow>
          (case handleResponse message employeesResponse of
             Inl e \<Rightarrow> Inl e
           | Inr employees \<Rightarrow>
               (case handleResponse message masterDataResponse of
                  Inl e \<Rightarrow> Inl e
                | Inr masterData \<Rightarrow> Inr (employees, masterData))))"

text \<open>
  \<^verbatim>\<open>fetchApis\<close>: what its caller gets, a thrown failure (\<open>Inl\<close>) or the returned
  value, where \<open>None\<close> is \<^verbatim>\<open>null\<close>.
\<close>

definition fetchApis ::
  "('j \<Rightarrow> failure + string option) \<Rightarrow> (string \<Rightarrow> string \<Rightarrow> failure + 'j response) \<Rightarrow>
   string \<Rightarrow> failure + ('j \<times> 'j) option" where
  "fetchApis message fetch apiKey =
     (case fetchBoth message fetch apiKey of
        Inl error \<Rightarrow> Inr None
      | Inr pair \<Rightarrow> Inr (Some pair))"

section \<open>Properties of strings and objects\<close>

lemma split_js_not_Nil: "split_js sep s \<noteq> []"
  by (induction s) (auto split: list.splits)

lemma split_js_length:
  "length (split_js sep s) = Suc (length (filter (\<lambda>c. c = sep) s))"
proof (induction s)
  case Nil
  show ?case by simp
next
  case (Cons c cs)
  then show ?case
    using split_js_not_Nil [of sep cs] by (cases "split_js sep cs") auto
qed

lemma split_js_no_separator:
  "sep \<notin> set s \<Longrightarrow> split_js sep s = [s]"
  by (induction s) auto

lemma split_js_pieces:
  "p \<in> set (split_js sep s) \<Longrightarrow> sep \<notin> set p"
proof (induction s arbitrary: p)
  case Nil
  then show ?case by simp
next
  case (Cons c cs)
  then show ?case
    by (cases "split_js sep cs") (auto split: if_splits)
qed

lemma split_js_concat:
  "concat (split_js sep s) = filter (\<lambda>c. c \<noteq> sep) s"
proof (induction s)
  case Nil
  show ?case by simp
next
  case (Cons c cs)
  then show ?case
    using split_js_not_Nil [of sep cs] by (cases "split_js sep cs") auto
qed

lemma get_prop_set_prop:
  "get_prop (set_prop e k v) k' =
     (if k' = k \<and> k \<noteq> ''__proto__'' then v else get_prop e k')"
  by (simp add: get_prop_def set_prop_def update_conv')

lemma keys_set_prop:
  "fst ` set (set_prop e k v) =
     (if k = ''__proto__'' then fst ` set e else insert k (fst ` set e))"
  by (simp add: set_prop_def dom_update)

lemma rev_dropWhile_takeWhile:
  "rev (dropWhile P (rev xs)) @ rev (takeWhile P (rev xs)) = xs"
  by (simp flip: rev_append)

lemma trim_decompose:
  "\<exists>a b. s = a @ trim s @ b \<and> (\<forall>c\<in>set a. is_space c) \<and> (\<forall>c\<in>set b. is_space c)"
proof -
  let ?t = "dropWhile is_space s"
  let ?a = "takeWhile is_space s"
  let ?b = "rev (takeWhile is_space (rev ?t))"
  have "?t = trim s @ ?b"
    by (simp add: trim_def rev_dropWhile_takeWhile)
  moreover have "s = ?a @ ?t"
    by simp
  ultimately have "s = ?a @ trim s @ ?b"
    by simp
  moreover have "\<forall>c\<in>set ?a. is_space c"
    by (auto dest: set_takeWhileD)
  moreover have "\<forall>c\<in>set ?b. is_space c"
    by (auto dest: set_takeWhileD)
  ultimately show ?thesis by blast
qed

lemma trim_ends:
  assumes "trim s \<noteq> []"
  shows "\<not> is_space (hd (trim s)) \<and> \<not> is_space (last (trim s))"
proof -
  let ?t = "dropWhile is_space s"
  let ?u = "dropWhile is_space (rev ?t)"
  from assms have u: "?u \<noteq> []"
    by (simp add: trim_def)
  then have "\<not> is_space (hd ?u)"
    by (rule hd_dropWhile)
  moreover have "last (trim s) = hd ?u"
    using u by (simp add: trim_def last_rev)
  ultimately have l: "\<not> is_space (last (trim s))"
    by simp
  have t: "?t = trim s @ rev (takeWhile is_space (rev ?t))"
    by (simp add: trim_def rev_dropWhile_takeWhile)
  with assms have "?t \<noteq> []"
    by (metis append_is_Nil_conv)
  then have "\<not> is_space (hd ?t)"
    by (rule hd_dropWhile)
  moreover from t assms have "hd ?t = hd (trim s)"
    by (metis hd_append2)
  ultimately have "\<not> is_space (hd (trim s))"
    by simp
  with l show ?thesis by simp
qed

section \<open>Properties of the photo resolver\<close>

lemma set_file_inv:
  assumes "\<forall>k i. m k = Some i \<longrightarrow> k \<noteq> [] \<and> i \<noteq> []"
  shows "\<forall>k i. set_file m f k = Some i \<longrightarrow> k \<noteq> [] \<and> i \<noteq> []"
proof (cases "truthy (file_name f) \<and> truthy (file_id f)")
  case False
  then have "set_file m f = m" by (auto simp: set_file_def)
  with assms show ?thesis by simp
next
  case True
  then obtain n j where nj: "file_name f = Some n" "n \<noteq> []" "file_id f = Some j" "j \<noteq> []"
    by (auto simp: truthy_def split: option.splits)
  then have eq: "set_file m f = m(n \<mapsto> j)"
    by (simp add: set_file_def truthy_def or_empty_def)
  show ?thesis
  proof (intro allI impI)
    fix k i assume "set_file m f k = Some i"
    then have "(k = n \<and> i = j) \<or> m k = Some i"
      unfolding eq by (simp split: if_splits)
    then show "k \<noteq> [] \<and> i \<noteq> []"
      using nj assms by blast
  qed
qed


lemma foldl_set_file_inv:
  "\<forall>k i. m k = Some i \<longrightarrow> k \<noteq> [] \<and> i \<noteq> [] \<Longrightarrow>
   \<forall>k i. foldl set_file m fs k = Some i \<longrightarrow> k \<noteq> [] \<and> i \<noteq> []"
proof (induction fs arbitrary: m)
  case Nil
  then show ?case by simp
next
  case (Cons f fs)
  have "\<forall>k i. set_file m f k = Some i \<longrightarrow> k \<noteq> [] \<and> i \<noteq> []"
    by (rule set_file_inv) (rule Cons.prems)
  then have "\<forall>k i. foldl set_file (set_file m f) fs k = Some i \<longrightarrow> k \<noteq> [] \<and> i \<noteq> []"
    by (rule Cons.IH)
  then show ?case by simp
qed

lemma fileMapOf_nonempty:
  assumes "fileMapOf files k = Some i"
  shows "k \<noteq> [] \<and> i \<noteq> []"
proof (cases files)
  case None
  with assms show ?thesis
    by (simp add: fileMapOf_def)
next
  case (Some fs)
  have "\<forall>k i. foldl set_file Map.empty fs k = Some i \<longrightarrow> k \<noteq> [] \<and> i \<noteq> []"
    by (rule foldl_set_file_inv) simp
  with Some assms show ?thesis
    by (simp add: fileMapOf_def)
qed

text \<open>
  Claim C4. For a photo lookup built by \<^verbatim>\<open>listFilesInFolder\<close> and any name key,
  \<^verbatim>\<open>getPhotoCdn\<close> returns the empty string when the key is the empty string, when
  the key is absent from the lookup, or when the lookup is empty; otherwise it returns
  the configured host, a slash, and the identifier stored for that key.
\<close>

theorem getPhotoCdn_resolve:
  assumes "ps = fileMapOf files"
  shows "getPhotoCdn cfg ps (Some []) = [] \<and>
         (ps k = None \<longrightarrow> getPhotoCdn cfg ps (Some k) = []) \<and>
         (ps = Map.empty \<longrightarrow> getPhotoCdn cfg ps (Some k) = []) \<and>
         (ps k = Some i \<and> DRIVE_PHOTO_HOST cfg = Some h \<longrightarrow>
            getPhotoCdn cfg ps (Some k) = h @ ''/'' @ i)"
proof -
  have ne: "\<And>k i. ps k = Some i \<Longrightarrow> k \<noteq> [] \<and> i \<noteq> []"
    using assms fileMapOf_nonempty by blast
  have "ps [] = None"
    using ne [of "[]"] by (cases "ps []") auto
  then have a: "getPhotoCdn cfg ps (Some []) = []"
    by (simp add: getPhotoCdn_def truthy_def)
  have b: "ps k = None \<longrightarrow> getPhotoCdn cfg ps (Some k) = []"
    by (simp add: getPhotoCdn_def truthy_def)
  have c: "ps = Map.empty \<longrightarrow> getPhotoCdn cfg ps (Some k) = []"
    by (simp add: getPhotoCdn_def truthy_def)
  have d: "ps k = Some i \<and> DRIVE_PHOTO_HOST cfg = Some h \<longrightarrow>
        getPhotoCdn cfg ps (Some k) = h @ ''/'' @ i"
    using ne [of k i] by (simp add: getPhotoCdn_def truthy_def template_def)
  from a b c d show ?thesis by blast
qed

theorem getPhotoCdn_resolve_witness:
  "getPhotoCdn \<lparr>DRIVE_PHOTO_HOST = Some ''H'', API_SECRET_KEY = None\<rparr>
     (fileMapOf (Some [\<lparr>file_id = Some ''id1'', file_name = Some ''p.png''\<rparr>]))
     (Some ''p.png'') = ''H/id1'' \<and>
   getPhotoCdn \<lparr>DRIVE_PHOTO_HOST = Some ''H'', API_SECRET_KEY = None\<rparr>
     (fileMapOf (Some [\<lparr>file_id = Some ''id1'', file_name = Some ''p.png''\<rparr>]))
     (Some ''missing'') = [] \<and>
   getPhotoCdn \<lparr>DRIVE_PHOTO_HOST = Some ''H'', API_SECRET_KEY = None\<rparr>
     (fileMapOf (Some [\<lparr>file_id = Some ''id1'', file_name = Some ''p.png''\<rparr>]))
     (Some []) = [] \<and>
   getPhotoCdn \<lparr>DRIVE_PHOTO_HOST = Some ''H'', API_SECRET_KEY = None\<rparr>
     (fileMapOf None) (Some ''p.png'') = []"
proof -
  let ?cfg = "\<lparr>DRIVE_PHOTO_HOST = Some ''H'', API_SECRET_KEY = None\<rparr>"
  let ?fs = "Some [\<lparr>file_id = Some ''id1'', file_name = Some ''p.png''\<rparr>]"
  have p: "fileMapOf ?fs ''p.png'' = Some ''id1''"
    by (simp add: fileMapOf_def set_file_def truthy_def or_empty_def)
  have q: "fileMapOf ?fs ''missing'' = None"
    by (simp add: fileMapOf_def set_file_def truthy_def or_empty_def)
  have e: "fileMapOf None = Map.empty"
    by (simp add: fileMapOf_def)
  have h: "DRIVE_PHOTO_HOST ?cfg = Some ''H''"
    by simp
  from getPhotoCdn_resolve [OF refl, where files = ?fs and cfg = ?cfg
      and k = "''p.png''" and i = "''id1''" and h = "''H''"] p h
  have 1: "getPhotoCdn ?cfg (fileMapOf ?fs) (Some ''p.png'') = ''H/id1''"
    by simp
  from getPhotoCdn_resolve [OF refl, where files = ?fs and cfg = ?cfg
      and k = "''missing''"] q
  have 2: "getPhotoCdn ?cfg (fileMapOf ?fs) (Some ''missing'') = []"
    and 3: "getPhotoCdn ?cfg (fileMapOf ?fs) (Some []) = []"
    by blast+
  from getPhotoCdn_resolve [OF refl, where files = None and cfg = ?cfg
      and k = "''p.png''"] e
  have 4: "getPhotoCdn ?cfg (fileMapOf None) (Some ''p.png'') = []"
    by blast
  from 1 2 3 4 show ?thesis by blast
qed

section \<open>Properties of the row mapper\<close>

lemma reducer_keys:
  "fst ` set (reducer cfg ps r e h i) = fst ` set e \<union> writes h"
  by (auto simp: reducer_def writes_def keys_set_prop Let_def)

lemma reducer_other:
  "k \<notin> writes h \<Longrightarrow> get_prop (reducer cfg ps r e h i) k = get_prop e k"
  by (auto simp: reducer_def writes_def get_prop_set_prop Let_def split: if_splits)

lemma reduce_from_Nil: "reduce_from cfg ps r e n [] = e"
  by (simp add: reduce_from_def)

lemma reduce_from_Cons:
  "reduce_from cfg ps r e n (h # hs) = reduce_from cfg ps r (reducer cfg ps r e h n) (Suc n) hs"
  by (simp add: reduce_from_def)

lemma reduce_from_keys:
  "fst ` set (reduce_from cfg ps r e n hs) = fst ` set e \<union> (\<Union>h\<in>set hs. writes h)"
  by (induction hs arbitrary: e n) (auto simp: reduce_from_Nil reduce_from_Cons reducer_keys)

lemma reduce_from_other:
  "\<forall>h\<in>set hs. k \<notin> writes h \<Longrightarrow>
   get_prop (reduce_from cfg ps r e n hs) k = get_prop e k"
  by (induction hs arbitrary: e n) (simp_all add: reduce_from_Nil reduce_from_Cons reducer_other)

lemma reduce_from_append:
  "reduce_from cfg ps r e n (xs @ ys) =
   reduce_from cfg ps r (reduce_from cfg ps r e n xs) (n + length xs) ys"
  by (induction xs arbitrary: e n) (simp_all add: reduce_from_Nil reduce_from_Cons)

lemma mapRow_at:
  assumes "i < length H"
  shows "mapRow cfg ps H r =
         reduce_from cfg ps r (reducer cfg ps r (reduce_from cfg ps r [] 0 (take i H)) (H ! i) i)
           (Suc i) (drop (Suc i) H)"
proof -
  have "H = take i H @ H ! i # drop (Suc i) H"
    using assms by (rule id_take_nth_drop)
  then have "mapRow cfg ps H r = reduce_from cfg ps r [] 0 (take i H @ H ! i # drop (Suc i) H)"
    by (simp add: mapRow_def)
  also have "\<dots> = reduce_from cfg ps r (reducer cfg ps r (reduce_from cfg ps r [] 0 (take i H)) (H ! i) i)
           (Suc i) (drop (Suc i) H)"
    using assms by (simp add: reduce_from_append reduce_from_Cons)
  finally show ?thesis .
qed

lemma mapRow_last_write:
  assumes "i < length H" and "\<forall>h\<in>set (drop (Suc i) H). k \<notin> writes h"
  shows "get_prop (mapRow cfg ps H r) k =
         get_prop (reducer cfg ps r (reduce_from cfg ps r [] 0 (take i H)) (H ! i) i) k"
  by (simp add: mapRow_at [OF assms(1)] reduce_from_other [OF assms(2)])




lemma reducer_sequence:
  assumes "h = ''projects'' \<or> h = ''club''"
  shows "get_prop (reducer cfg ps r e h i) h =
         (case cell r i of None \<Rightarrow> Arr [] | Some s \<Rightarrow> Arr (map trim (split_js CHR '','' s)))"
  using assms by (auto simp: reducer_def get_prop_set_prop)

lemma reducer_dob:
  "get_prop (reducer cfg ps r e ''dob'' i) ''monthofbirth'' =
     element (split_js CHR ''/'' (or_empty (cell r i))) 0"
  "get_prop (reducer cfg ps r e ''dob'' i) ''yearofbirth'' =
     element (split_js CHR ''/'' (or_empty (cell r i))) 2"
  "get_prop (reducer cfg ps r e ''dob'' i) ''dob'' = Str (or_empty (cell r i))"
  by (simp_all add: reducer_def get_prop_set_prop Let_def)

lemma reducer_date_joined:
  "get_prop (reducer cfg ps r e ''date_joined'' i) ''joiningyear'' =
     element (split_js CHR ''/'' (or_empty (cell r i))) 2"
  "get_prop (reducer cfg ps r e ''date_joined'' i) ''date_joined'' = Str (or_empty (cell r i))"
  by (simp_all add: reducer_def get_prop_set_prop Let_def)

lemma element_third:
  "length (filter (\<lambda>c. c = CHR ''/'') s) < 2 \<Longrightarrow> element (split_js CHR ''/'' s) 2 = Undefined"
  by (simp add: element_def split_js_length)

lemma element_first:
  "CHR ''/'' \<notin> set s \<Longrightarrow> element (split_js CHR ''/'' s) 0 = Str s"
  by (simp add: element_def split_js_no_separator)







text \<open>
  Claim C2, as amended. For a data row whose \<^verbatim>\<open>dob\<close> cell is absent or empty,
  \<^verbatim>\<open>monthofbirth\<close> is the empty string; for a \<^verbatim>\<open>dob\<close> cell without a slash,
  \<^verbatim>\<open>monthofbirth\<close> is the whole cell value. This is said of the last column named
  \<^verbatim>\<open>dob\<close>, when no column named \<^verbatim>\<open>monthofbirth\<close> comes after it. Nothing is said
  here of \<^verbatim>\<open>yearofbirth\<close> and \<^verbatim>\<open>joiningyear\<close>. Malformed dates never raise:
  whenever the two data sources answer, \<^verbatim>\<open>getAllEmployees\<close> returns the mapped
  records.
\<close>

theorem malformed_dates:
  "(i < length H \<and> H ! i = ''dob'' \<and>
    (\<forall>h\<in>set (drop (Suc i) H). h \<notin> {''dob'', ''monthofbirth''}) \<longrightarrow>
      (cell r i = None \<or> cell r i = Some [] \<longrightarrow>
         get_prop (mapRow cfg ps H r) ''monthofbirth'' = Str []) \<and>
      (CHR ''/'' \<notin> set (or_empty (cell r i)) \<longrightarrow>
         get_prop (mapRow cfg ps H r) ''monthofbirth'' = Str (or_empty (cell r i)))) \<and>
   (drive_files_list w (photoFolder param) = Inr files \<and>
    sheets_values_get w (spreadsheetId param) (sheetRange param) = Inr (Some (H # R)) \<longrightarrow>
      snd (getAllEmployees cfg w param) = Inr (mapRows cfg (fileMapOf files) H R))"
proof (intro conjI impI)
  assume a: "i < length H \<and> H ! i = ''dob'' \<and>
    (\<forall>h\<in>set (drop (Suc i) H). h \<notin> {''dob'', ''monthofbirth''})"
    and s: "CHR ''/'' \<notin> set (or_empty (cell r i))"
  from a have "\<forall>h\<in>set (drop (Suc i) H). ''monthofbirth'' \<notin> writes h"
    by (auto simp: writes_def)
  with a have "get_prop (mapRow cfg ps H r) ''monthofbirth'' =
      get_prop (reducer cfg ps r (reduce_from cfg ps r [] 0 (take i H)) ''dob'' i) ''monthofbirth''"
    using mapRow_last_write [of i H "''monthofbirth''" cfg ps r] by simp
  with s show "get_prop (mapRow cfg ps H r) ''monthofbirth'' = Str (or_empty (cell r i))"
    by (simp add: reducer_dob element_first)
next
  assume a: "i < length H \<and> H ! i = ''dob'' \<and>
    (\<forall>h\<in>set (drop (Suc i) H). h \<notin> {''dob'', ''monthofbirth''})"
    and s: "cell r i = None \<or> cell r i = Some []"
  from s have e: "or_empty (cell r i) = []"
    by (auto simp: or_empty_def)
  from a have "\<forall>h\<in>set (drop (Suc i) H). ''monthofbirth'' \<notin> writes h"
    by (auto simp: writes_def)
  with a have "get_prop (mapRow cfg ps H r) ''monthofbirth'' =
      get_prop (reducer cfg ps r (reduce_from cfg ps r [] 0 (take i H)) ''dob'' i) ''monthofbirth''"
    using mapRow_last_write [of i H "''monthofbirth''" cfg ps r] by simp
  with e show "get_prop (mapRow cfg ps H r) ''monthofbirth'' = Str []"
    by (simp add: reducer_dob element_def)
next
  assume "drive_files_list w (photoFolder param) = Inr files \<and>
    sheets_values_get w (spreadsheetId param) (sheetRange param) = Inr (Some (H # R))"
  then show "snd (getAllEmployees cfg w param) = Inr (mapRows cfg (fileMapOf files) H R)"
    by (simp add: getAllEmployees_def listFilesInFolder_def)
qed

theorem malformed_dates_witness:
  "get_prop (mapRow \<lparr>DRIVE_PHOTO_HOST = Some ''H'', API_SECRET_KEY = None\<rparr> Map.empty
     [''name'', ''dob'', ''date_joined''] [''Ann'', ''1990'']) ''monthofbirth'' = Str ''1990'' \<and>
   get_prop (mapRow \<lparr>DRIVE_PHOTO_HOST = Some ''H'', API_SECRET_KEY = None\<rparr> Map.empty
     [''name'', ''dob'', ''date_joined''] [''Ann'']) ''monthofbirth'' = Str [] \<and>
   snd (getAllEmployees \<lparr>DRIVE_PHOTO_HOST = Some ''H'', API_SECRET_KEY = None\<rparr>
     \<lparr>drive_files_list = (\<lambda>f. Inr None),
      sheets_values_get = (\<lambda>s g. Inr (Some [[''name'', ''dob'', ''date_joined''],
        [''Ann'', ''1990'']]))\<rparr>
     \<lparr>spreadsheetId = ''s'', sheetRange = ''A:Z'', photoFolder = ''f''\<rparr>) =
     Inr (mapRows \<lparr>DRIVE_PHOTO_HOST = Some ''H'', API_SECRET_KEY = None\<rparr> (fileMapOf None)
       [''name'', ''dob'', ''date_joined''] [[''Ann'', ''1990'']])"
proof -
  let ?cfg = "\<lparr>DRIVE_PHOTO_HOST = Some ''H'', API_SECRET_KEY = None\<rparr>"
  let ?H = "[''name'', ''dob'', ''date_joined'']"
  let ?r = "[''Ann'', ''1990'']"
  let ?r' = "[''Ann'']"
  let ?w = "\<lparr>drive_files_list = (\<lambda>f::string. Inr None),
      sheets_values_get = (\<lambda>(s::string) (g::string). Inr (Some [?H, ?r]))\<rparr>"
  let ?param = "\<lparr>spreadsheetId = ''s'', sheetRange = ''A:Z'', photoFolder = ''f''\<rparr>"
  have c: "or_empty (cell ?r 1) = ''1990''" "cell ?r' 1 = None"
    by (simp_all add: cell_def or_empty_def)
  note t = malformed_dates [where i = 1 and H = ?H and r = ?r and cfg = ?cfg
      and ps = Map.empty and w = ?w and param = ?param and files = None and R = "[?r]"]
  note t' = malformed_dates [where i = 1 and H = ?H and r = ?r' and cfg = ?cfg
      and ps = Map.empty]
  from t c have 1: "get_prop (mapRow ?cfg Map.empty ?H ?r) ''monthofbirth'' = Str ''1990''"
    by simp
  from t' c have 2: "get_prop (mapRow ?cfg Map.empty ?H ?r') ''monthofbirth'' = Str []"
    by simp
  from t have 3: "snd (getAllEmployees ?cfg ?w ?param) =
      Inr (mapRows ?cfg (fileMapOf None) ?H [?r])"
    by simp
  from 1 2 3 show ?thesis by blast
qed

text \<open>
  The claim as first stated makes \<^verbatim>\<open>monthofbirth\<close> the empty string for every
  \<^verbatim>\<open>dob\<close> cell without a slash. With the cell \<^verbatim>\<open>"1990"\<close> the field is
  \<^verbatim>\<open>"1990"\<close>.
\<close>

theorem malformed_dates_counterexample:
  "CHR ''/'' \<notin> set ''1990'' \<and>
   get_prop (mapRow \<lparr>DRIVE_PHOTO_HOST = Some ''H'', API_SECRET_KEY = None\<rparr> Map.empty
     [''name'', ''dob''] [''Ann'', ''1990'']) ''monthofbirth'' = Str ''1990'' \<and>
   get_prop (mapRow \<lparr>DRIVE_PHOTO_HOST = Some ''H'', API_SECRET_KEY = None\<rparr> Map.empty
     [''name'', ''dob''] [''Ann'', ''1990'']) ''monthofbirth'' \<noteq> Str []"
  by (simp add: mapRow_def reduce_from_def reducer_def cell_def or_empty_def element_def
      set_prop_def get_prop_def Let_def)

text \<open>
  The third component of a date with fewer than two slashes is missing, and the callback
  assigns it as it is: the derived year is then a field of the record whose value is
  \<^verbatim>\<open>undefined\<close>, for \<^verbatim>\<open>dob\<close> and for \<^verbatim>\<open>date_joined\<close> alike.
\<close>

lemma derived_year_missing:
  assumes "i < length H" and "H ! i = ''dob''"
    and "\<forall>h\<in>set (drop (Suc i) H). h \<notin> {''dob'', ''yearofbirth''}"
    and "length (filter (\<lambda>c. c = CHR ''/'') (or_empty (cell r i))) < 2"
  shows "get_prop (mapRow cfg ps H r) ''yearofbirth'' = Undefined"
    and "has_prop (mapRow cfg ps H r) ''yearofbirth''"
proof -
  from assms(3) have "\<forall>h\<in>set (drop (Suc i) H). ''yearofbirth'' \<notin> writes h"
    by (auto simp: writes_def)
  with assms(1,2) have "get_prop (mapRow cfg ps H r) ''yearofbirth'' =
      get_prop (reducer cfg ps r (reduce_from cfg ps r [] 0 (take i H)) ''dob'' i) ''yearofbirth''"
    using mapRow_last_write [of i H "''yearofbirth''" cfg ps r] by simp
  with assms(4) show "get_prop (mapRow cfg ps H r) ''yearofbirth'' = Undefined"
    by (simp add: reducer_dob element_third)
  from assms(1,2) have "''dob'' \<in> set H"
    by (metis nth_mem)
  then have "''yearofbirth'' \<in> (\<Union>h\<in>set H. writes h)"
    by (auto simp: writes_def)
  then show "has_prop (mapRow cfg ps H r) ''yearofbirth''"
    by (simp add: has_prop_def mapRow_def reduce_from_keys)
qed

lemma joiningyear_missing:
  assumes "j < length H" and "H ! j = ''date_joined''"
    and "\<forall>h\<in>set (drop (Suc j) H). h \<notin> {''date_joined'', ''joiningyear''}"
    and "length (filter (\<lambda>c. c = CHR ''/'') (or_empty (cell r j))) < 2"
  shows "get_prop (mapRow cfg ps H r) ''joiningyear'' = Undefined"
    and "has_prop (mapRow cfg ps H r) ''joiningyear''"
proof -
  from assms(3) have "\<forall>h\<in>set (drop (Suc j) H). ''joiningyear'' \<notin> writes h"
    by (auto simp: writes_def)
  with assms(1,2) have "get_prop (mapRow cfg ps H r) ''joiningyear'' =
      get_prop (reducer cfg ps r (reduce_from cfg ps r [] 0 (take j H)) ''date_joined'' j) ''joiningyear''"
    using mapRow_last_write [of j H "''joiningyear''" cfg ps r] by simp
  with assms(4) show "get_prop (mapRow cfg ps H r) ''joiningyear'' = Undefined"
    by (simp add: reducer_date_joined element_third)
  from assms(1,2) have "''date_joined'' \<in> set H"
    by (metis nth_mem)
  then have "''joiningyear'' \<in> (\<Union>h\<in>set H. writes h)"
    by (auto simp: writes_def)
  then show "has_prop (mapRow cfg ps H r) ''joiningyear''"
    by (simp add: has_prop_def mapRow_def reduce_from_keys)
qed

text \<open>
  What the rule for \<^verbatim>\<open>projects\<close> and \<^verbatim>\<open>club\<close> stores, in the last column with
  that header: the cell split on the comma with each piece trimmed, and the empty
  sequence when the cell is absent.
\<close>

lemma projects_club_value:
  assumes "i < length H" and "H ! i = ''projects'' \<or> H ! i = ''club''"
    and "H ! i \<notin> set (drop (Suc i) H)"
  shows "get_prop (mapRow cfg ps H r) (H ! i) =
       (case cell r i of
          None \<Rightarrow> Arr []
        | Some s \<Rightarrow> Arr (map trim (split_js CHR '','' s)))"
proof -
  from assms(2,3) have "\<forall>h\<in>set (drop (Suc i) H). H ! i \<notin> writes h"
    by (auto simp: writes_def)
  with assms(1) have "get_prop (mapRow cfg ps H r) (H ! i) =
      get_prop (reducer cfg ps r (reduce_from cfg ps r [] 0 (take i H)) (H ! i) i) (H ! i)"
    using mapRow_last_write [of i H "H ! i" cfg ps r] by simp
  with assms(2) show ?thesis
    by (simp add: reducer_sequence)
qed

lemma projects_club_example:
  "get_prop (mapRow \<lparr>DRIVE_PHOTO_HOST = Some ''H'', API_SECRET_KEY = None\<rparr> Map.empty
     [''name'', ''projects'', ''club''] [''Ann'', ''A, B,C'']) ''projects'' =
     Arr [''A'', ''B'', ''C''] \<and>
   get_prop (mapRow \<lparr>DRIVE_PHOTO_HOST = Some ''H'', API_SECRET_KEY = None\<rparr> Map.empty
     [''name'', ''projects'', ''club''] [''Ann'', ''A, B,C'']) ''club'' = Arr []"
proof -
  let ?cfg = "\<lparr>DRIVE_PHOTO_HOST = Some ''H'', API_SECRET_KEY = None\<rparr>"
  let ?H = "[''name'', ''projects'', ''club'']"
  let ?r = "[''Ann'', ''A, B,C'']"
  have 1: "get_prop (mapRow ?cfg Map.empty ?H ?r) ''projects'' = Arr [''A'', ''B'', ''C'']"
    using projects_club_value [where i = 1 and H = ?H and r = ?r and cfg = ?cfg
        and ps = Map.empty]
    by (simp add: cell_def trim_def is_space_def)
  have 2: "get_prop (mapRow ?cfg Map.empty ?H ?r) ''club'' = Arr []"
    using projects_club_value [where i = 2 and H = ?H and r = ?r and cfg = ?cfg
        and ps = Map.empty]
    by (simp add: cell_def)
  from 1 2 show ?thesis by blast
qed

text \<open>
  Claim C3. The \<^verbatim>\<open>projects\<close> and \<^verbatim>\<open>club\<close> fields are the cell value split on the
  comma with each piece trimmed, and the empty sequence when the cell is empty or absent.
  The code departs from this at an empty cell: for the row \<^verbatim>\<open>["", "Ann"]\<close> under the
  headers \<^verbatim>\<open>projects\<close>, \<^verbatim>\<open>name\<close>, and likewise under the headers
  \<^verbatim>\<open>club\<close>, \<^verbatim>\<open>name\<close>, the field is the sequence holding one empty string, not
  the empty sequence.
\<close>

theorem projects_empty_cell:
  "cell ['''', ''Ann''] 0 = Some [] \<and>
   get_prop (mapRow \<lparr>DRIVE_PHOTO_HOST = Some ''H'', API_SECRET_KEY = None\<rparr> Map.empty
     [''projects'', ''name''] ['''', ''Ann'']) ''projects'' = Arr [[]] \<and>
   get_prop (mapRow \<lparr>DRIVE_PHOTO_HOST = Some ''H'', API_SECRET_KEY = None\<rparr> Map.empty
     [''projects'', ''name''] ['''', ''Ann'']) ''projects'' \<noteq> Arr [] \<and>
   get_prop (mapRow \<lparr>DRIVE_PHOTO_HOST = Some ''H'', API_SECRET_KEY = None\<rparr> Map.empty
     [''club'', ''name''] ['''', ''Ann'']) ''club'' = Arr [[]] \<and>
   get_prop (mapRow \<lparr>DRIVE_PHOTO_HOST = Some ''H'', API_SECRET_KEY = None\<rparr> Map.empty
     [''club'', ''name''] ['''', ''Ann'']) ''club'' \<noteq> Arr []"
  by (simp add: mapRow_def reduce_from_def reducer_def cell_def or_empty_def trim_def
      set_prop_def get_prop_def)

lemma reducer_typed:
  assumes "k = ''projects'' \<or> k = ''club''" and "\<forall>s. get_prop e k \<noteq> Str s"
  shows "\<forall>s. get_prop (reducer cfg ps r e h i) k \<noteq> Str s"
proof (cases "h = k")
  case True
  with assms(1) show ?thesis
    by (simp add: reducer_sequence split: option.splits)
next
  case False
  with assms(1) have "k \<notin> writes h"
    by (auto simp: writes_def)
  with assms(2) show ?thesis
    by (simp add: reducer_other)
qed

lemma reduce_from_typed:
  assumes "k = ''projects'' \<or> k = ''club''" and "\<forall>s. get_prop e k \<noteq> Str s"
  shows "\<forall>s. get_prop (reduce_from cfg ps r e n hs) k \<noteq> Str s"
  using assms(2)
proof (induction hs arbitrary: e n)
  case Nil
  then show ?case by (simp add: reduce_from_Nil)
next
  case (Cons h hs)
  have "\<forall>s. get_prop (reducer cfg ps r e h n) k \<noteq> Str s"
    using assms(1) Cons.prems by (rule reducer_typed)
  then have "\<forall>s. get_prop (reduce_from cfg ps r (reducer cfg ps r e h n) (Suc n) hs) k \<noteq> Str s"
    by (rule Cons.IH)
  then show ?case
    by (simp add: reduce_from_Cons)
qed

text \<open>
  The records that the row mapper builds are typed as the filter expects: their
  \<^verbatim>\<open>projects\<close> and \<^verbatim>\<open>club\<close> fields are never scalar strings.
\<close>

lemma mapRows_typed:
  "\<forall>it\<in>set (mapRows cfg ps H R). \<forall>s.
     get_prop it ''projects'' \<noteq> Str s \<and> get_prop it ''club'' \<noteq> Str s"
proof (intro ballI allI)
  fix it s
  assume "it \<in> set (mapRows cfg ps H R)"
  then obtain r where it: "it = mapRow cfg ps H r"
    by (auto simp: mapRows_def)
  have e: "\<forall>s. get_prop [] ''projects'' \<noteq> Str s" "\<forall>s. get_prop [] ''club'' \<noteq> Str s"
    by (simp_all add: get_prop_def)
  have "\<forall>s. get_prop (reduce_from cfg ps r [] 0 H) ''projects'' \<noteq> Str s"
    by (rule reduce_from_typed) (simp_all add: e)
  moreover have "\<forall>s. get_prop (reduce_from cfg ps r [] 0 H) ''club'' \<noteq> Str s"
    by (rule reduce_from_typed) (simp_all add: e)
  ultimately show "get_prop it ''projects'' \<noteq> Str s \<and> get_prop it ''club'' \<noteq> Str s"
    by (simp add: it mapRow_def)
qed

section \<open>Properties of the master data grouper\<close>

lemma push_category_fields:
  "category (push_category cfg ps r m) = category m @ category_entry cfg ps r"
  "country (push_category cfg ps r m) = country m"
  "role (push_category cfg ps r m) = role m"
  "birthplace (push_category cfg ps r m) = birthplace m"
  "yearofbirth (push_category cfg ps r m) = yearofbirth m"
  "monthofbirth (push_category cfg ps r m) = monthofbirth m"
  "project (push_category cfg ps r m) = project m"
  "club (push_category cfg ps r m) = club m"
  "gender (push_category cfg ps r m) = gender m"
  "joiningyear (push_category cfg ps r m) = joiningyear m"
  "office (push_category cfg ps r m) = office m"
  by (simp_all add: push_category_def category_entry_def)

lemma push_country_fields:
  "category (push_country cfg ps r m) = category m"
  "country (push_country cfg ps r m) = country m @ group_entry cfg ps 4 5 r"
  "role (push_country cfg ps r m) = role m"
  "birthplace (push_country cfg ps r m) = birthplace m"
  "yearofbirth (push_country cfg ps r m) = yearofbirth m"
  "monthofbirth (push_country cfg ps r m) = monthofbirth m"
  "project (push_country cfg ps r m) = project m"
  "club (push_country cfg ps r m) = club m"
  "gender (push_country cfg ps r m) = gender m"
  "joiningyear (push_country cfg ps r m) = joiningyear m"
  "office (push_country cfg ps r m) = office m"
  by (simp_all add: push_country_def group_entry_def)

lemma push_role_fields:
  "category (push_role cfg ps r m) = category m"
  "country (push_role cfg ps r m) = country m"
  "role (push_role cfg ps r m) = role m @ group_entry cfg ps 7 8 r"
  "birthplace (push_role cfg ps r m) = birthplace m"
  "yearofbirth (push_role cfg ps r m) = yearofbirth m"
  "monthofbirth (push_role cfg ps r m) = monthofbirth m"
  "project (push_role cfg ps r m) = project m"
  "club (push_role cfg ps r m) = club m"
  "gender (push_role cfg ps r m) = gender m"
  "joiningyear (push_role cfg ps r m) = joiningyear m"
  "office (push_role cfg ps r m) = office m"
  by (simp_all add: push_role_def group_entry_def)

lemma push_birthplace_fields:
  "category (push_birthplace cfg ps r m) = category m"
  "country (push_birthplace cfg ps r m) = country m"
  "role (push_birthplace cfg ps r m) = role m"
  "birthplace (push_birthplace cfg ps r m) = birthplace m @ group_entry cfg ps 10 11 r"
  "yearofbirth (push_birthplace cfg ps r m) = yearofbirth m"
  "monthofbirth (push_birthplace cfg ps r m) = monthofbirth m"
  "project (push_birthplace cfg ps r m) = project m"
  "club (push_birthplace cfg ps r m) = club m"
  "gender (push_birthplace cfg ps r m) = gender m"
  "joiningyear (push_birthplace cfg ps r m) = joiningyear m"
  "office (push_birthplace cfg ps r m) = office m"
  by (simp_all add: push_birthplace_def group_entry_def)

lemma push_yearofbirth_fields:
  "category (push_yearofbirth cfg ps r m) = category m"
  "country (push_yearofbirth cfg ps r m) = country m"
  "role (push_yearofbirth cfg ps r m) = role m"
  "birthplace (push_yearofbirth cfg ps r m) = birthplace m"
  "yearofbirth (push_yearofbirth cfg ps r m) = yearofbirth m @ group_entry cfg ps 13 14 r"
  "monthofbirth (push_yearofbirth cfg ps r m) = monthofbirth m"
  "project (push_yearofbirth cfg ps r m) = project m"
  "club (push_yearofbirth cfg ps r m) = club m"
  "gender (push_yearofbirth cfg ps r m) = gender m"
  "joiningyear (push_yearofbirth cfg ps r m) = joiningyear m"
  "office (push_yearofbirth cfg ps r m) = office m"
  by (simp_all add: push_yearofbirth_def group_entry_def)

lemma push_monthofbirth_fields:
  "category (push_monthofbirth cfg ps r m) = category m"
  "country (push_monthofbirth cfg ps r m) = country m"
  "role (push_monthofbirth cfg ps r m) = role m"
  "birthplace (push_monthofbirth cfg ps r m) = birthplace m"
  "yearofbirth (push_monthofbirth cfg ps r m) = yearofbirth m"
  "monthofbirth (push_monthofbirth cfg ps r m) = monthofbirth m @ group_entry cfg ps 16 17 r"
  "project (push_monthofbirth cfg ps r m) = project m"
  "club (push_monthofbirth cfg ps r m) = club m"
  "gender (push_monthofbirth cfg ps r m) = gender m"
  "joiningyear (push_monthofbirth cfg ps r m) = joiningyear m"
  "office (push_monthofbirth cfg ps r m) = office m"
  by (simp_all add: push_monthofbirth_def group_entry_def)

lemma push_project_fields:
  "category (push_project cfg ps r m) = category m"
  "country (push_project cfg ps r m) = country m"
  "role (push_project cfg ps r m) = role m"
  "birthplace (push_project cfg ps r m) = birthplace m"
  "yearofbirth (push_project cfg ps r m) = yearofbirth m"
  "monthofbirth (push_project cfg ps r m) = monthofbirth m"
  "project (push_project cfg ps r m) = project m @ group_entry cfg ps 19 20 r"
  "club (push_project cfg ps r m) = club m"
  "gender (push_project cfg ps r m) = gender m"
  "joiningyear (push_project cfg ps r m) = joiningyear m"
  "office (push_project cfg ps r m) = office m"
  by (simp_all add: push_project_def group_entry_def)

lemma push_club_fields:
  "category (push_club cfg ps r m) = category m"
  "country (push_club cfg ps r m) = country m"
  "role (push_club cfg ps r m) = role m"
  "birthplace (push_club cfg ps r m) = birthplace m"
  "yearofbirth (push_club cfg ps r m) = yearofbirth m"
  "monthofbirth (push_club cfg ps r m) = monthofbirth m"
  "project (push_club cfg ps r m) = project m"
  "club (push_club cfg ps r m) = club m @ group_entry cfg ps 22 23 r"
  "gender (push_club cfg ps r m) = gender m"
  "joiningyear (push_club cfg ps r m) = joiningyear m"
  "office (push_club cfg ps r m) = office m"
  by (simp_all add: push_club_def group_entry_def)

lemma push_gender_fields:
  "category (push_gender cfg ps r m) = category m"
  "country (push_gender cfg ps r m) = country m"
  "role (push_gender cfg ps r m) = role m"
  "birthplace (push_gender cfg ps r m) = birthplace m"
  "yearofbirth (push_gender cfg ps r m) = yearofbirth m"
  "monthofbirth (push_gender cfg ps r m) = monthofbirth m"
  "project (push_gender cfg ps r m) = project m"
  "club (push_gender cfg ps r m) = club m"
  "gender (push_gender cfg ps r m) = gender m @ group_entry cfg ps 25 26 r"
  "joiningyear (push_gender cfg ps r m) = joiningyear m"
  "office (push_gender cfg ps r m) = office m"
  by (simp_all add: push_gender_def group_entry_def)

lemma push_joiningyear_fields:
  "category (push_joiningyear cfg ps r m) = category m"
  "country (push_joiningyear cfg ps r m) = country m"
  "role (push_joiningyear cfg ps r m) = role m"
  "birthplace (push_joiningyear cfg ps r m) = birthplace m"
  "yearofbirth (push_joiningyear cfg ps r m) = yearofbirth m"
  "monthofbirth (push_joiningyear cfg ps r m) = monthofbirth m"
  "project (push_joiningyear cfg ps r m) = project m"
  "club (push_joiningyear cfg ps r m) = club m"
  "gender (push_joiningyear cfg ps r m) = gender m"
  "joiningyear (push_joiningyear cfg ps r m) = joiningyear m @ group_entry cfg ps 28 29 r"
  "office (push_joiningyear cfg ps r m) = office m"
  by (simp_all add: push_joiningyear_def group_entry_def)

lemma push_office_fields:
  "category (push_office cfg ps r m) = category m"
  "country (push_office cfg ps r m) = country m"
  "role (push_office cfg ps r m) = role m"
  "birthplace (push_office cfg ps r m) = birthplace m"
  "yearofbirth (push_office cfg ps r m) = yearofbirth m"
  "monthofbirth (push_office cfg ps r m) = monthofbirth m"
  "project (push_office cfg ps r m) = project m"
  "club (push_office cfg ps r m) = club m"
  "gender (push_office cfg ps r m) = gender m"
  "joiningyear (push_office cfg ps r m) = joiningyear m"
  "office (push_office cfg ps r m) = office m @ group_entry cfg ps 31 32 r"
  by (simp_all add: push_office_def group_entry_def)

lemmas push_fields = push_category_fields push_country_fields push_role_fields push_birthplace_fields push_yearofbirth_fields push_monthofbirth_fields push_project_fields push_club_fields push_gender_fields push_joiningyear_fields push_office_fields

lemma pushRow_category:
  "category (pushRow cfg ps m r) = category m @ category_entry cfg ps r"
  by (simp add: pushRow_def push_fields)

lemma pushRow_country:
  "country (pushRow cfg ps m r) = country m @ group_entry cfg ps 4 5 r"
  by (simp add: pushRow_def push_fields)

lemma pushRow_role:
  "role (pushRow cfg ps m r) = role m @ group_entry cfg ps 7 8 r"
  by (simp add: pushRow_def push_fields)

lemma pushRow_birthplace:
  "birthplace (pushRow cfg ps m r) = birthplace m @ group_entry cfg ps 10 11 r"
  by (simp add: pushRow_def push_fields)

lemma pushRow_yearofbirth:
  "yearofbirth (pushRow cfg ps m r) = yearofbirth m @ group_entry cfg ps 13 14 r"
  by (simp add: pushRow_def push_fields)

lemma pushRow_monthofbirth:
  "monthofbirth (pushRow cfg ps m r) = monthofbirth m @ group_entry cfg ps 16 17 r"
  by (simp add: pushRow_def push_fields)

lemma pushRow_project:
  "project (pushRow cfg ps m r) = project m @ group_entry cfg ps 19 20 r"
  by (simp add: pushRow_def push_fields)

lemma pushRow_club:
  "club (pushRow cfg ps m r) = club m @ group_entry cfg ps 22 23 r"
  by (simp add: pushRow_def push_fields)

lemma pushRow_gender:
  "gender (pushRow cfg ps m r) = gender m @ group_entry cfg ps 25 26 r"
  by (simp add: pushRow_def push_fields)

lemma pushRow_joiningyear:
  "joiningyear (pushRow cfg ps m r) = joiningyear m @ group_entry cfg ps 28 29 r"
  by (simp add: pushRow_def push_fields)

lemma pushRow_office:
  "office (pushRow cfg ps m r) = office m @ group_entry cfg ps 31 32 r"
  by (simp add: pushRow_def push_fields)

lemma foldl_pushRow_category:
  "category (foldl (pushRow cfg ps) m rows) = category m @ concat (map (category_entry cfg ps) rows)"
  by (induction rows arbitrary: m) (simp_all add: pushRow_category)

lemma foldl_pushRow_country:
  "country (foldl (pushRow cfg ps) m rows) = country m @ concat (map (group_entry cfg ps 4 5) rows)"
  by (induction rows arbitrary: m) (simp_all add: pushRow_country)

lemma foldl_pushRow_role:
  "role (foldl (pushRow cfg ps) m rows) = role m @ concat (map (group_entry cfg ps 7 8) rows)"
  by (induction rows arbitrary: m) (simp_all add: pushRow_role)

lemma foldl_pushRow_birthplace:
  "birthplace (foldl (pushRow cfg ps) m rows) = birthplace m @ concat (map (group_entry cfg ps 10 11) rows)"
  by (induction rows arbitrary: m) (simp_all add: pushRow_birthplace)

lemma foldl_pushRow_yearofbirth:
  "yearofbirth (foldl (pushRow cfg ps) m rows) = yearofbirth m @ concat (map (group_entry cfg ps 13 14) rows)"
  by (induction rows arbitrary: m) (simp_all add: pushRow_yearofbirth)

lemma foldl_pushRow_monthofbirth:
  "monthofbirth (foldl (pushRow cfg ps) m rows) = monthofbirth m @ concat (map (group_entry cfg ps 16 17) rows)"
  by (induction rows arbitrary: m) (simp_all add: pushRow_monthofbirth)

lemma foldl_pushRow_project:
  "project (foldl (pushRow cfg ps) m rows) = project m @ concat (map (group_entry cfg ps 19 20) rows)"
  by (induction rows arbitrary: m) (simp_all add: pushRow_project)

lemma foldl_pushRow_club:
  "club (foldl (pushRow cfg ps) m rows) = club m @ concat (map (group_entry cfg ps 22 23) rows)"
  by (induction rows arbitrary: m) (simp_all add: pushRow_club)

lemma foldl_pushRow_gender:
  "gender (foldl (pushRow cfg ps) m rows) = gender m @ concat (map (group_entry cfg ps 25 26) rows)"
  by (induction rows arbitrary: m) (simp_all add: pushRow_gender)

lemma foldl_pushRow_joiningyear:
  "joiningyear (foldl (pushRow cfg ps) m rows) = joiningyear m @ concat (map (group_entry cfg ps 28 29) rows)"
  by (induction rows arbitrary: m) (simp_all add: pushRow_joiningyear)

lemma foldl_pushRow_office:
  "office (foldl (pushRow cfg ps) m rows) = office m @ concat (map (group_entry cfg ps 31 32) rows)"
  by (induction rows arbitrary: m) (simp_all add: pushRow_office)

text \<open>
  Claim C6. For every grid row past the first two, each of the eleven column groups adds
  an entry to its list if and only if the label column of that group is non-empty in the
  row, whatever the other groups do: every list of the result is the concatenation, over
  those rows in order, of what the row contributes to that group. In particular a row
  with an empty column 0 and a non-empty column 4 adds no category entry and exactly one
  country entry.
\<close>

theorem groupRows_contributions:
  "category (groupRows cfg ps rows) = concat (map (category_entry cfg ps) (drop 2 rows)) \<and>
   country (groupRows cfg ps rows) = concat (map (group_entry cfg ps 4 5) (drop 2 rows)) \<and>
   role (groupRows cfg ps rows) = concat (map (group_entry cfg ps 7 8) (drop 2 rows)) \<and>
   birthplace (groupRows cfg ps rows) = concat (map (group_entry cfg ps 10 11) (drop 2 rows)) \<and>
   yearofbirth (groupRows cfg ps rows) = concat (map (group_entry cfg ps 13 14) (drop 2 rows)) \<and>
   monthofbirth (groupRows cfg ps rows) = concat (map (group_entry cfg ps 16 17) (drop 2 rows)) \<and>
   project (groupRows cfg ps rows) = concat (map (group_entry cfg ps 19 20) (drop 2 rows)) \<and>
   club (groupRows cfg ps rows) = concat (map (group_entry cfg ps 22 23) (drop 2 rows)) \<and>
   gender (groupRows cfg ps rows) = concat (map (group_entry cfg ps 25 26) (drop 2 rows)) \<and>
   joiningyear (groupRows cfg ps rows) = concat (map (group_entry cfg ps 28 29) (drop 2 rows)) \<and>
   office (groupRows cfg ps rows) = concat (map (group_entry cfg ps 31 32) (drop 2 rows)) \<and>
   (\<not> truthy (cell r 0) \<and> truthy (cell r 4) \<longrightarrow>
      category (pushRow cfg ps m r) = category m \<and>
      country (pushRow cfg ps m r) =
        country m @ [\<lparr>title = cell r 4, photo = getPhotoCdn cfg ps (cell r 5)\<rparr>])"
proof -
  have "\<not> truthy (cell r 0) \<and> truthy (cell r 4) \<longrightarrow>
      category (pushRow cfg ps m r) = category m \<and>
      country (pushRow cfg ps m r) =
        country m @ [\<lparr>title = cell r 4, photo = getPhotoCdn cfg ps (cell r 5)\<rparr>]"
    by (simp add: pushRow_category pushRow_country category_entry_def group_entry_def)
  then show ?thesis
    unfolding groupRows_def
    by (simp only: foldl_pushRow_category foldl_pushRow_country foldl_pushRow_role foldl_pushRow_birthplace foldl_pushRow_yearofbirth foldl_pushRow_monthofbirth foldl_pushRow_project foldl_pushRow_club foldl_pushRow_gender foldl_pushRow_joiningyear foldl_pushRow_office)
      (simp add: emptyMasterData_def)
qed

theorem groupRows_contributions_witness:
  "category (groupRows \<lparr>DRIVE_PHOTO_HOST = Some ''H'', API_SECRET_KEY = None\<rparr>
      [''vn.png'' \<mapsto> ''id9'']
      [[''h''], [''l''], ['''', ''t'', '''', '''', ''VN'', ''vn.png''], [''c1'', ''Cat'']]) =
     [\<lparr>title = Some ''Cat'', photo = [], key = Some ''c1''\<rparr>] \<and>
   country (groupRows \<lparr>DRIVE_PHOTO_HOST = Some ''H'', API_SECRET_KEY = None\<rparr>
      [''vn.png'' \<mapsto> ''id9'']
      [[''h''], [''l''], ['''', ''t'', '''', '''', ''VN'', ''vn.png''], [''c1'', ''Cat'']]) =
     [\<lparr>title = Some ''VN'', photo = ''H/id9''\<rparr>] \<and>
   category (pushRow \<lparr>DRIVE_PHOTO_HOST = Some ''H'', API_SECRET_KEY = None\<rparr>
      [''vn.png'' \<mapsto> ''id9'']
      emptyMasterData ['''', ''t'', '''', '''', ''VN'', ''vn.png'']) = [] \<and>
   country (pushRow \<lparr>DRIVE_PHOTO_HOST = Some ''H'', API_SECRET_KEY = None\<rparr>
      [''vn.png'' \<mapsto> ''id9'']
      emptyMasterData ['''', ''t'', '''', '''', ''VN'', ''vn.png'']) =
     [\<lparr>title = Some ''VN'', photo = ''H/id9''\<rparr>]"
proof -
  let ?cfg = "\<lparr>DRIVE_PHOTO_HOST = Some ''H'', API_SECRET_KEY = None\<rparr>"
  let ?ps = "[''vn.png'' \<mapsto> ''id9'']"
  let ?r = "['''', ''t'', '''', '''', ''VN'', ''vn.png'']"
  have g: "\<not> truthy (cell ?r 0) \<and> truthy (cell ?r 4)"
    by (simp add: truthy_def cell_def)
  have e: "category emptyMasterData = []" "country emptyMasterData = []"
    by (simp_all add: emptyMasterData_def)
  from groupRows_contributions [where cfg = ?cfg and ps = ?ps and r = ?r
      and m = emptyMasterData
      and rows = "[[''h''], [''l''], ?r, [''c1'', ''Cat'']]"] g e
  show ?thesis
    by (simp add: category_entry_def group_entry_def truthy_def cell_def getPhotoCdn_def
        template_def)
qed

section \<open>Properties of the data-source readers and the endpoints\<close>

text \<open>
  Claim C5. For every raw grid with at most one row (the empty grid and the missing grid
  included), \<^verbatim>\<open>getMasterDataSource\<close> returns a MasterData value in which all eleven
  lists are empty, and it does not raise.
\<close>

theorem getMasterDataSource_few_rows:
  assumes "drive_files_list w (photoFolder param) = Inr files"
    and "sheets_values_get w (spreadsheetId param) (sheetRange param) = Inr rows"
    and "case rows of None \<Rightarrow> True | Some rs \<Rightarrow> length rs \<le> 1"
  shows "\<exists>m. snd (getMasterDataSource cfg w param) = Inr m \<and>
           category m = [] \<and> country m = [] \<and> role m = [] \<and> birthplace m = [] \<and> yearofbirth m = [] \<and> monthofbirth m = [] \<and>
           project m = [] \<and> club m = [] \<and> gender m = [] \<and> joiningyear m = [] \<and> office m = []"
proof -
  have "snd (getMasterDataSource cfg w param) = Inr emptyMasterData"
    using assms
    by (simp add: getMasterDataSource_def listFilesInFolder_def split: option.splits)
  then show ?thesis
    by (simp add: emptyMasterData_def)
qed

theorem getMasterDataSource_few_rows_witness:
  "\<exists>m. snd (getMasterDataSource \<lparr>DRIVE_PHOTO_HOST = Some ''H'', API_SECRET_KEY = None\<rparr>
             \<lparr>drive_files_list = (\<lambda>f. Inr None),
              sheets_values_get = (\<lambda>s g. Inr (Some [[''Category'', ''Title'']]))\<rparr>
             \<lparr>spreadsheetId = ''s'', sheetRange = ''A:Z'', photoFolder = ''f''\<rparr>) = Inr m \<and>
        category m = [] \<and> country m = [] \<and> role m = [] \<and> birthplace m = [] \<and> yearofbirth m = [] \<and> monthofbirth m = [] \<and>
        project m = [] \<and> club m = [] \<and> gender m = [] \<and> joiningyear m = [] \<and> office m = []"
  by (rule getMasterDataSource_few_rows [where files = None
        and rows = "Some [[''Category'', ''Title'']]"]) simp_all

text \<open>
  Whenever both data sources answer with a grid, the result is the grouping of the grid:
  for a grid of at most one row the early return and the loop agree.
\<close>

lemma getMasterDataSource_groupRows:
  assumes "drive_files_list w (photoFolder param) = Inr files"
    and "sheets_values_get w (spreadsheetId param) (sheetRange param) = Inr (Some rows)"
  shows "snd (getMasterDataSource cfg w param) = Inr (groupRows cfg (fileMapOf files) rows)"
  using assms
  by (simp add: getMasterDataSource_def listFilesInFolder_def groupRows_def)

lemma validateSecretKey_reject:
  "secretApi req \<noteq> env_value (API_SECRET_KEY cfg) \<Longrightarrow>
   validateSecretKey cfg req = ([Respond 401 unauthorized], False)"
  by (simp add: validateSecretKey_def)

lemma validateSecretKey_accept:
  "secretApi req = env_value (API_SECRET_KEY cfg) \<Longrightarrow>
   validateSecretKey cfg req = ([], True)"
  by (simp add: validateSecretKey_def)

text \<open>
  With a matching secret both endpoints do call the data sources: the folder listing is
  the first effect of either.
\<close>

lemma employeeAPI_authorized:
  "secretApi req = env_value (API_SECRET_KEY cfg) \<Longrightarrow>
   hd (employeeAPI cfg w req param) = DriveFilesList (photoFolder param)"
  by (simp add: employeeAPI_def validateSecretKey_accept getAllEmployees_def
      split: sum.splits option.splits list.splits)

lemma masterDataAPI_authorized:
  "secretApi req = env_value (API_SECRET_KEY cfg) \<Longrightarrow>
   hd (masterDataAPI cfg w req param) = DriveFilesList (photoFolder param)"
  by (simp add: masterDataAPI_def validateSecretKey_accept getMasterDataSource_def
      split: sum.splits option.splits)

text \<open>
  Claim C8. For every request whose supplied secret does not match the configured
  secret, each endpoint responds 401 with exactly the payload
  \<^verbatim>\<open>{error_code: "unauthorized", error_message: "Invalid secret key"}\<close> and issues
  no data-source call: the response is its only effect.
\<close>

theorem unauthorized_no_data_source_call:
  assumes "secretApi req \<noteq> env_value (API_SECRET_KEY cfg)"
  shows "employeeAPI cfg w req param =
           [Respond 401 (ErrorJson ''unauthorized'' ''Invalid secret key'')] \<and>
         masterDataAPI cfg w req param =
           [Respond 401 (ErrorJson ''unauthorized'' ''Invalid secret key'')]"
  using assms
  by (simp add: employeeAPI_def masterDataAPI_def validateSecretKey_reject unauthorized_def)

theorem unauthorized_no_data_source_call_witness:
  "employeeAPI \<lparr>DRIVE_PHOTO_HOST = Some ''H'', API_SECRET_KEY = Some ''s3''\<rparr>
     \<lparr>drive_files_list = (\<lambda>f. Inr None), sheets_values_get = (\<lambda>s g. Inr None)\<rparr>
     \<lparr>headers = [], query = [(''x-secret-key'', Str ''wrong'')]\<rparr>
     \<lparr>spreadsheetId = ''s'', sheetRange = ''A:Z'', photoFolder = ''f''\<rparr> =
     [Respond 401 (ErrorJson ''unauthorized'' ''Invalid secret key'')] \<and>
   masterDataAPI \<lparr>DRIVE_PHOTO_HOST = Some ''H'', API_SECRET_KEY = Some ''s3''\<rparr>
     \<lparr>drive_files_list = (\<lambda>f. Inr None), sheets_values_get = (\<lambda>s g. Inr None)\<rparr>
     \<lparr>headers = [], query = [(''x-secret-key'', Str ''wrong'')]\<rparr>
     \<lparr>spreadsheetId = ''s'', sheetRange = ''A:Z'', photoFolder = ''f''\<rparr> =
     [Respond 401 (ErrorJson ''unauthorized'' ''Invalid secret key'')]"
  by (rule unauthorized_no_data_source_call)
    (simp add: secretApi_def nullish_def get_prop_def env_value_def)

text \<open>
  Claim C10. The query parameter is consulted only when the \<^verbatim>\<open>x-secret-key\<close> header
  is absent: the secret checked is the header whenever the header is present, so a
  request with a present but non-matching header is rejected with 401 by both endpoints,
  whatever its query parameter is, the configured secret included.
\<close>

theorem header_before_query:
  assumes "get_prop (headers req) ''x-secret-key'' \<noteq> Undefined"
    and "get_prop (headers req) ''x-secret-key'' \<noteq> env_value (API_SECRET_KEY cfg)"
  shows "secretApi (req\<lparr>query := q\<rparr>) = get_prop (headers req) ''x-secret-key'' \<and>
         validateSecretKey cfg (req\<lparr>query := q\<rparr>) = ([Respond 401 unauthorized], False) \<and>
         employeeAPI cfg w (req\<lparr>query := q\<rparr>) param =
           [Respond 401 (ErrorJson ''unauthorized'' ''Invalid secret key'')] \<and>
         masterDataAPI cfg w (req\<lparr>query := q\<rparr>) param =
           [Respond 401 (ErrorJson ''unauthorized'' ''Invalid secret key'')]"
proof -
  have s: "secretApi (req\<lparr>query := q\<rparr>) = get_prop (headers req) ''x-secret-key''"
    using assms(1) by (simp add: secretApi_def nullish_def)
  with assms(2) have v: "validateSecretKey cfg (req\<lparr>query := q\<rparr>) =
      ([Respond 401 unauthorized], False)"
    by (simp add: validateSecretKey_def)
  from s v show ?thesis
    by (simp add: employeeAPI_def masterDataAPI_def unauthorized_def)
qed

theorem header_before_query_witness:
  "secretApi \<lparr>headers = [(''x-secret-key'', Str ''wrong'')],
              query = [(''x-secret-key'', Str ''s3'')]\<rparr> = Str ''wrong'' \<and>
   employeeAPI \<lparr>DRIVE_PHOTO_HOST = Some ''H'', API_SECRET_KEY = Some ''s3''\<rparr>
     \<lparr>drive_files_list = (\<lambda>f. Inr None), sheets_values_get = (\<lambda>s g. Inr None)\<rparr>
     \<lparr>headers = [(''x-secret-key'', Str ''wrong'')],
      query = [(''x-secret-key'', Str ''s3'')]\<rparr>
     \<lparr>spreadsheetId = ''s'', sheetRange = ''A:Z'', photoFolder = ''f''\<rparr> =
     [Respond 401 (ErrorJson ''unauthorized'' ''Invalid secret key'')] \<and>
   masterDataAPI \<lparr>DRIVE_PHOTO_HOST = Some ''H'', API_SECRET_KEY = Some ''s3''\<rparr>
     \<lparr>drive_files_list = (\<lambda>f. Inr None), sheets_values_get = (\<lambda>s g. Inr None)\<rparr>
     \<lparr>headers = [(''x-secret-key'', Str ''wrong'')],
      query = [(''x-secret-key'', Str ''s3'')]\<rparr>
     \<lparr>spreadsheetId = ''s'', sheetRange = ''A:Z'', photoFolder = ''f''\<rparr> =
     [Respond 401 (ErrorJson ''unauthorized'' ''Invalid secret key'')]"
proof -
  let ?req = "\<lparr>headers = [(''x-secret-key'', Str ''wrong'')], query = []\<rparr>"
  let ?cfg = "\<lparr>DRIVE_PHOTO_HOST = Some ''H'', API_SECRET_KEY = Some ''s3''\<rparr>"
  have a: "get_prop (headers ?req) ''x-secret-key'' \<noteq> Undefined"
    by (simp add: get_prop_def)
  have b: "get_prop (headers ?req) ''x-secret-key'' \<noteq> env_value (API_SECRET_KEY ?cfg)"
    by (simp add: get_prop_def env_value_def)
  have c: "get_prop (headers ?req) ''x-secret-key'' = Str ''wrong''"
    by (simp add: get_prop_def)
  from header_before_query [OF a b, where q = "[(''x-secret-key'', Str ''s3'')]"] c
  show ?thesis by simp
qed

section \<open>Properties of the client fetch facade\<close>

lemma handleResponse_not_ok:
  "\<not> ok resp \<Longrightarrow> \<exists>e. handleResponse message resp = Inl e"
  by (simp add: handleResponse_def split: sum.splits)

lemma handleResponse_ok:
  "ok resp \<Longrightarrow> handleResponse message resp = json resp"
  by (simp add: handleResponse_def)

lemma handleResponse_Inr:
  "handleResponse message resp = Inr d \<Longrightarrow> ok resp \<and> json resp = Inr d"
  by (cases "ok resp") (auto simp: handleResponse_def split: sum.splits if_splits)

lemma fetchBoth_Inr:
  assumes "fetchBoth message fetch apiKey = Inr p"
  shows "\<exists>x y. fetch ''/api/employee'' apiKey = Inr x \<and> ok x \<and> json x = Inr (fst p) \<and>
               fetch ''/api/master-data'' apiKey = Inr y \<and> ok y \<and> json y = Inr (snd p)"
proof -
  from assms obtain x y where
    x: "fetch ''/api/employee'' apiKey = Inr x" and
    y: "fetch ''/api/master-data'' apiKey = Inr y" and
    h: "handleResponse message x = Inr (fst p)" "handleResponse message y = Inr (snd p)"
    by (auto simp: fetchBoth_def promise_all_def split: sum.splits)
  from h have "ok x \<and> json x = Inr (fst p)" "ok y \<and> json y = Inr (snd p)"
    by (simp_all add: handleResponse_Inr)
  with x y show ?thesis by blast
qed

lemma fetchBoth_success:
  assumes "fetch ''/api/employee'' apiKey = Inr x" "ok x" "json x = Inr a"
    and "fetch ''/api/master-data'' apiKey = Inr y" "ok y" "json y = Inr b"
  shows "fetchBoth message fetch apiKey = Inr (a, b)"
  using assms by (simp add: fetchBoth_def promise_all_def handleResponse_ok)

text \<open>
  Claim C9. Whenever either fetch rejects or either response is not successful,
  \<^verbatim>\<open>fetchApis\<close> returns null: never a partial pair, and never a failure raised to its
  caller. It returns a pair only when both fetches resolve to successful responses, and
  then the pair holds the two parsed bodies; when both succeed and both bodies parse, it
  does return that pair.
\<close>

theorem fetchApis_null_on_failure:
  "(\<forall>e. fetchApis message fetch apiKey \<noteq> Inl e) \<and>
   ((\<exists>e. fetch ''/api/employee'' apiKey = Inl e) \<or>
    (\<exists>e. fetch ''/api/master-data'' apiKey = Inl e) \<or>
    (\<exists>x. fetch ''/api/employee'' apiKey = Inr x \<and> \<not> ok x) \<or>
    (\<exists>y. fetch ''/api/master-data'' apiKey = Inr y \<and> \<not> ok y) \<longrightarrow>
      fetchApis message fetch apiKey = Inr None) \<and>
   (\<forall>p. fetchApis message fetch apiKey = Inr (Some p) \<longrightarrow>
      (\<exists>x y. fetch ''/api/employee'' apiKey = Inr x \<and> ok x \<and> json x = Inr (fst p) \<and>
             fetch ''/api/master-data'' apiKey = Inr y \<and> ok y \<and> json y = Inr (snd p))) \<and>
   (\<forall>x y a b. fetch ''/api/employee'' apiKey = Inr x \<and> ok x \<and> json x = Inr a \<and>
      fetch ''/api/master-data'' apiKey = Inr y \<and> ok y \<and> json y = Inr b \<longrightarrow>
      fetchApis message fetch apiKey = Inr (Some (a, b)))"
proof (intro conjI allI impI)
  fix e
  show "fetchApis message fetch apiKey \<noteq> Inl e"
    by (simp add: fetchApis_def split: sum.splits)
next
  assume f: "(\<exists>e. fetch ''/api/employee'' apiKey = Inl e) \<or>
    (\<exists>e. fetch ''/api/master-data'' apiKey = Inl e) \<or>
    (\<exists>x. fetch ''/api/employee'' apiKey = Inr x \<and> \<not> ok x) \<or>
    (\<exists>y. fetch ''/api/master-data'' apiKey = Inr y \<and> \<not> ok y)"
  have "\<not> (\<exists>p. fetchBoth message fetch apiKey = Inr p)"
  proof
    assume "\<exists>p. fetchBoth message fetch apiKey = Inr p"
    then obtain p where "fetchBoth message fetch apiKey = Inr p" ..
    from fetchBoth_Inr [OF this] f show False by auto
  qed
  then show "fetchApis message fetch apiKey = Inr None"
    by (cases "fetchBoth message fetch apiKey") (simp_all add: fetchApis_def)
next
  fix p
  assume "fetchApis message fetch apiKey = Inr (Some p)"
  then have "fetchBoth message fetch apiKey = Inr p"
    by (simp add: fetchApis_def split: sum.splits)
  then show "\<exists>x y. fetch ''/api/employee'' apiKey = Inr x \<and> ok x \<and> json x = Inr (fst p) \<and>
             fetch ''/api/master-data'' apiKey = Inr y \<and> ok y \<and> json y = Inr (snd p)"
    by (rule fetchBoth_Inr)
next
  fix x y a b
  assume "fetch ''/api/employee'' apiKey = Inr x \<and> ok x \<and> json x = Inr a \<and>
      fetch ''/api/master-data'' apiKey = Inr y \<and> ok y \<and> json y = Inr b"
  then have "fetchBoth message fetch apiKey = Inr (a, b)"
    by (simp add: fetchBoth_success)
  then show "fetchApis message fetch apiKey = Inr (Some (a, b))"
    by (simp add: fetchApis_def)
qed

theorem fetchApis_null_on_failure_witness:
  "fetchApis (\<lambda>d. Inr (Some ''Invalid secret key''))
     (\<lambda>url k. if url = ''/api/employee''
        then Inr \<lparr>ok = True, status = 200, json = Inr ''[]''\<rparr>
        else Inr \<lparr>ok = False, status = 401, json = Inr ''{}''\<rparr>) ''bad'' = Inr None \<and>
   fetchApis (\<lambda>d. Inr (Some ''Invalid secret key''))
     (\<lambda>url k. if url = ''/api/employee''
        then Inr \<lparr>ok = True, status = 200, json = Inr ''[]''\<rparr>
        else Inl (Thrown ''network'')) ''s3'' = Inr None \<and>
   fetchApis (\<lambda>d. Inr (Some ''Invalid secret key''))
     (\<lambda>url k. if url = ''/api/employee''
        then Inr \<lparr>ok = True, status = 200, json = Inr ''[]''\<rparr>
        else Inr \<lparr>ok = True, status = 200, json = Inr ''{}''\<rparr>) ''s3'' =
     Inr (Some (''[]'', ''{}''))"
proof -
  let ?m = "\<lambda>d::string. (Inr (Some ''Invalid secret key'') :: failure + string option)"
  let ?f1 = "\<lambda>(url::string) (k::string). if url = ''/api/employee''
        then (Inr \<lparr>ok = True, status = 200, json = Inr ''[]''\<rparr> :: failure + string response)
        else Inr \<lparr>ok = False, status = 401, json = Inr ''{}''\<rparr>"
  let ?f2 = "\<lambda>(url::string) (k::string). if url = ''/api/employee''
        then (Inr \<lparr>ok = True, status = 200, json = Inr ''[]''\<rparr> :: failure + string response)
        else Inl (Thrown ''network'')"
  let ?f3 = "\<lambda>(url::string) (k::string). if url = ''/api/employee''
        then (Inr \<lparr>ok = True, status = 200, json = Inr ''[]''\<rparr> :: failure + string response)
        else Inr \<lparr>ok = True, status = 200, json = Inr ''{}''\<rparr>"
  have 1: "fetchApis ?m ?f1 ''bad'' = Inr None"
    using fetchApis_null_on_failure [where message = ?m and fetch = ?f1 and apiKey = "''bad''"]
    by simp
  have 2: "fetchApis ?m ?f2 ''s3'' = Inr None"
    using fetchApis_null_on_failure [where message = ?m and fetch = ?f2 and apiKey = "''s3''"]
    by simp
  have 3: "fetchApis ?m ?f3 ''s3'' = Inr (Some (''[]'', ''{}''))"
    using fetchApis_null_on_failure [where message = ?m and fetch = ?f3 and apiKey = "''s3''"]
    by simp
  from 1 2 3 show ?thesis by blast
qed

section \<open>Properties of the filter utilities\<close>

text \<open>
  Claim C7. For every field name, value and list of employee records (records in which
  \<^verbatim>\<open>projects\<close> and \<^verbatim>\<open>club\<close>, where present, are sequences, as the Employee
  interface declares), \<^verbatim>\<open>filterEmployee\<close> returns exactly the records satisfying the
  match, in their order: for the fields \<^verbatim>\<open>projects\<close> and \<^verbatim>\<open>club\<close> the records
  whose sequence field contains the value as an element, for every other field the
  records whose field is a string equal to the value.
\<close>

theorem filterEmployee_exact:
  assumes "\<forall>it \<in> set apiEmployees. \<forall>s.
             get_prop it ''projects'' \<noteq> Str s \<and> get_prop it ''club'' \<noteq> Str s"
  shows "filterEmployee categoryKey filterValue apiEmployees =
           filter (\<lambda>it. if categoryKey \<in> {''projects'', ''club''}
                        then \<exists>xs. get_prop it categoryKey = Arr xs \<and> filterValue \<in> set xs
                        else get_prop it categoryKey = Str filterValue) apiEmployees"
proof (cases "categoryKey \<in> {''projects'', ''club''}")
  case False
  then show ?thesis
    by (simp add: filterEmployee_def)
next
  case True
  have "includes_js (get_prop it categoryKey) filterValue =
        (\<exists>xs. get_prop it categoryKey = Arr xs \<and> filterValue \<in> set xs)"
    if "it \<in> set apiEmployees" for it
  proof (cases "get_prop it categoryKey")
    case Undefined
    then show ?thesis by (simp add: includes_js_def)
  next
    case (Str s)
    with True assms that show ?thesis by auto
  next
    case (Arr xs)
    then show ?thesis by (simp add: includes_js_def)
  qed
  then have "filter (\<lambda>it. includes_js (get_prop it categoryKey) filterValue) apiEmployees =
      filter (\<lambda>it. \<exists>xs. get_prop it categoryKey = Arr xs \<and> filterValue \<in> set xs) apiEmployees"
    by (intro filter_cong) simp_all
  with True show ?thesis
    by (auto simp: filterEmployee_def)
qed

theorem filterEmployee_exact_witness:
  "filterEmployee ''club'' ''Soccer''
     [[(''name'', Str ''Ann''), (''gender'', Str ''F''), (''club'', Arr [''Soccer'', ''Chess''])],
      [(''name'', Str ''Bob''), (''gender'', Str ''M''), (''club'', Arr [''Soccer2''])],
      [(''name'', Str ''Cy''), (''gender'', Str ''f'')]] =
     [[(''name'', Str ''Ann''), (''gender'', Str ''F''), (''club'', Arr [''Soccer'', ''Chess''])]] \<and>
   filterEmployee ''gender'' ''F''
     [[(''name'', Str ''Ann''), (''gender'', Str ''F''), (''club'', Arr [''Soccer'', ''Chess''])],
      [(''name'', Str ''Bob''), (''gender'', Str ''M''), (''club'', Arr [''Soccer2''])],
      [(''name'', Str ''Cy''), (''gender'', Str ''f'')]] =
     [[(''name'', Str ''Ann''), (''gender'', Str ''F''), (''club'', Arr [''Soccer'', ''Chess''])]]"
proof -
  let ?es = "[[(''name'', Str ''Ann''), (''gender'', Str ''F''), (''club'', Arr [''Soccer'', ''Chess''])],
      [(''name'', Str ''Bob''), (''gender'', Str ''M''), (''club'', Arr [''Soccer2''])],
      [(''name'', Str ''Cy''), (''gender'', Str ''f'')]]"
  have t: "\<forall>it \<in> set ?es. \<forall>s.
             get_prop it ''projects'' \<noteq> Str s \<and> get_prop it ''club'' \<noteq> Str s"
    by (simp add: get_prop_def)
  have 1: "filterEmployee ''club'' ''Soccer'' ?es = [hd ?es]"
    using filterEmployee_exact [OF t, where categoryKey = "''club''" and filterValue = "''Soccer''"]
    by (simp add: get_prop_def)
  have 2: "filterEmployee ''gender'' ''F'' ?es = [hd ?es]"
    using filterEmployee_exact [OF t, where categoryKey = "''gender''" and filterValue = "''F''"]
    by (simp add: get_prop_def)
  from 1 2 show ?thesis by simp
qed

end
